theory Spec2Isabelle
  imports Complex_Main
begin

section \<open>JavaScript strings\<close>

text \<open>
  A JavaScript string is a sequence of UTF-16 code units. A code unit is modelled as a
  natural number, so that the en dash (U+2013) of the page rules and the Unicode white
  space of \<open>\s\<close> and \<open>trim\<close> are single elements, as they are for the program.
  \<open>js\<close> embeds an ASCII literal.
\<close>

type_synonym jschar = nat
type_synonym jstring = "jschar list"

named_theorems ev \<open>defining equations unfolded when a term is evaluated\<close>

declare Let_def [ev]

definition js :: "string \<Rightarrow> jstring" where
  [ev]: "js s = map of_char s"

definition en_dash :: jschar where
  [ev]: "en_dash = 8211"

definition is_digit :: "jschar \<Rightarrow> bool" where
  [ev]: "is_digit c = (48 \<le> c \<and> c \<le> 57)"

definition is_upper :: "jschar \<Rightarrow> bool" where
  [ev]: "is_upper c = (65 \<le> c \<and> c \<le> 90)"

definition is_lower :: "jschar \<Rightarrow> bool" where
  [ev]: "is_lower c = (97 \<le> c \<and> c \<le> 122)"

text \<open>\<open>\w\<close>: letters, digits and the underscore.\<close>

definition is_word :: "jschar \<Rightarrow> bool" where
  [ev]: "is_word c = (is_upper c \<or> is_lower c \<or> is_digit c \<or> c = 95)"

text \<open>\<open>\s\<close> and the characters \<open>trim\<close> removes: white space and line terminators.\<close>

definition is_space :: "jschar \<Rightarrow> bool" where
  [ev]: "is_space c = (c = 32 \<or> (9 \<le> c \<and> c \<le> 13) \<or> c = 160 \<or> c = 5760
     \<or> (8192 \<le> c \<and> c \<le> 8202) \<or> c = 8232 \<or> c = 8233 \<or> c = 8239 \<or> c = 8287
     \<or> c = 12288 \<or> c = 65279)"

text \<open>The dot of a regular expression: any code unit but a line terminator.\<close>

definition is_dot :: "jschar \<Rightarrow> bool" where
  [ev]: "is_dot c = (c \<noteq> 10 \<and> c \<noteq> 13 \<and> c \<noteq> 8232 \<and> c \<noteq> 8233)"

text \<open>
  \<open>toLowerCase\<close> and \<open>toUpperCase\<close> are modelled on the ASCII letters; code units outside
  ASCII are left as they are.
\<close>

definition lower_char :: "jschar \<Rightarrow> jschar" where
  [ev]: "lower_char c = (if is_upper c then c + 32 else c)"

definition upper_char :: "jschar \<Rightarrow> jschar" where
  [ev]: "upper_char c = (if is_lower c then c - 32 else c)"

definition toLowerCase :: "jstring \<Rightarrow> jstring" where
  [ev]: "toLowerCase s = map lower_char s"

definition toUpperCase :: "jstring \<Rightarrow> jstring" where
  [ev]: "toUpperCase s = map upper_char s"

definition trim :: "jstring \<Rightarrow> jstring" where
  [ev]: "trim s = rev (dropWhile is_space (rev (dropWhile is_space s)))"

definition startsWith :: "jstring \<Rightarrow> jstring \<Rightarrow> bool" where
  [ev]: "startsWith s p = (take (length p) s = p)"

definition endsWith :: "jstring \<Rightarrow> jstring \<Rightarrow> bool" where
  [ev]: "endsWith s p = (length p \<le> length s \<and> drop (length s - length p) s = p)"

text \<open>\<open>indexOf\<close>: the first position at which \<open>p\<close> occurs, \<open>None\<close> for JavaScript's -1.\<close>

fun indexOf_from :: "nat \<Rightarrow> jstring \<Rightarrow> jstring \<Rightarrow> nat option" where
  "indexOf_from i [] p = (if p = [] then Some i else None)"
| "indexOf_from i (c # s) p =
     (if take (length p) (c # s) = p then Some i else indexOf_from (i + 1) s p)"

definition indexOf :: "jstring \<Rightarrow> jstring \<Rightarrow> nat option" where
  [ev]: "indexOf s p = indexOf_from 0 s p"

definition str_includes :: "jstring \<Rightarrow> jstring \<Rightarrow> bool" where
  [ev]: "str_includes s p = (indexOf s p \<noteq> None)"

text \<open>\<open>s.replace(p, r)\<close> for a string pattern: the first occurrence only.\<close>

definition replace_str :: "jstring \<Rightarrow> jstring \<Rightarrow> jstring \<Rightarrow> jstring" where
  [ev]: "replace_str s p r =
     (case indexOf s p of
        None \<Rightarrow> s
      | Some i \<Rightarrow> take i s @ r @ drop (i + length p) s)"

text \<open>\<open>s.split(c)\<close> for a separator of one character.\<close>

fun split_chr :: "jschar \<Rightarrow> jstring \<Rightarrow> jstring list" where
  "split_chr sep [] = [[]]"
| "split_chr sep (c # s) =
     (if c = sep then [] # split_chr sep s
      else (case split_chr sep s of
              [] \<Rightarrow> [[c]]
            | x # xs \<Rightarrow> (c # x) # xs))"

fun join :: "jstring \<Rightarrow> jstring list \<Rightarrow> jstring" where
  "join sep [] = []"
| "join sep [x] = x"
| "join sep (x # xs) = x @ sep @ join sep xs"

text \<open>The decimal digits of a number, as a template literal prints it.\<close>

fun digits_of :: "nat \<Rightarrow> nat \<Rightarrow> jstring" where
  "digits_of 0 n = []"
| "digits_of (Suc fuel) n =
     (if n < 10 then [48 + n] else digits_of fuel (n div 10) @ [48 + n mod 10])"

definition show_nat :: "nat \<Rightarrow> jstring" where
  [ev]: "show_nat n = digits_of (Suc n) n"

text \<open>A string is truthy when it is not empty; an absent field is falsy.\<close>

fun truthy :: "jstring option \<Rightarrow> bool" where
  "truthy None = False"
| "truthy (Some s) = (s \<noteq> [])"

text \<open>\<open>a || ''\<close> for an optional string.\<close>

fun or_empty :: "jstring option \<Rightarrow> jstring" where
  "or_empty None = []"
| "or_empty (Some s) = s"

section \<open>Regular expressions\<close>

text \<open>
  The regular expressions of the program are written as terms of \<open>rx\<close> and run by a
  backtracking matcher that follows the priority order of the JavaScript engine: the
  alternatives of \<open>|\<close> left to right, a greedy quantifier the longest first, a lazy one the
  shortest first. \<open>Rep g mn mx r\<close> is \<open>r{mn,mx}\<close> (\<open>mx = None\<close>: unbounded), greedy iff \<open>g\<close>.
  The flag \<open>i\<close> is written into the character tests (\<open>lit_ci\<close>).
\<close>

datatype rx =
    Ch "jschar \<Rightarrow> bool"
  | Eps
  | Bol
  | Eol
  | Seq rx rx
  | Alt rx rx
  | Rep bool nat "nat option" rx
  | Grp nat rx

text \<open>
  The matcher works on a stack of what remains to be matched. \<open>Chk p\<close> rejects an
  iteration of a quantifier that consumed nothing since position \<open>p\<close>; \<open>Cls i p\<close> closes
  the capture group \<open>i\<close> opened at position \<open>p\<close>.
\<close>

datatype item = R rx | Chk nat | Cls nat nat

type_synonym caps = "(nat \<times> nat \<times> nat) list"

fun dec_max :: "nat option \<Rightarrow> nat option" where
  "dec_max None = None"
| "dec_max (Some m) = Some (m - 1)"

fun wt :: "rx \<Rightarrow> nat" where
  "wt (Ch p) = 1"
| "wt Eps = 1"
| "wt Bol = 1"
| "wt Eol = 1"
| "wt (Seq a b) = wt a + wt b + 1"
| "wt (Alt a b) = wt a + wt b + 1"
| "wt (Rep g mn mx r) = (mn + 1) * (wt r + 3)"
| "wt (Grp i r) = wt r + 2"

fun swt :: "item list \<Rightarrow> nat \<Rightarrow> nat" where
  "swt [] pos = 0"
| "swt (R r # k) pos = wt r + swt k pos"
| "swt (Cls i st # k) pos = 1 + swt k pos"
| "swt (Chk p0 # k) pos = (if p0 < pos then 1 + swt k pos else 1)"

text \<open>
  \<open>rx_run k pos s cs\<close>: match the stack \<open>k\<close> against \<open>s\<close>, the input from position \<open>pos\<close> on,
  with the captures \<open>cs\<close> so far. The result is the captures, the end position and the rest
  of the input.
\<close>

function rx_run :: "item list \<Rightarrow> nat \<Rightarrow> jstring \<Rightarrow> caps \<Rightarrow> (caps \<times> nat \<times> jstring) option" where
  "rx_run [] pos s cs = Some (cs, pos, s)"
| "rx_run (Chk p0 # k) pos s cs = (if p0 < pos then rx_run k pos s cs else None)"
| "rx_run (Cls i st # k) pos s cs = rx_run k pos s ((i, st, pos) # cs)"
| "rx_run (R (Ch p) # k) pos [] cs = None"
| "rx_run (R (Ch p) # k) pos (c # s) cs = (if p c then rx_run k (pos + 1) s cs else None)"
| "rx_run (R Eps # k) pos s cs = rx_run k pos s cs"
| "rx_run (R Bol # k) pos s cs = (if pos = 0 then rx_run k pos s cs else None)"
| "rx_run (R Eol # k) pos s cs = (if s = [] then rx_run k pos s cs else None)"
| "rx_run (R (Seq a b) # k) pos s cs = rx_run (R a # R b # k) pos s cs"
| "rx_run (R (Alt a b) # k) pos s cs =
     (case rx_run (R a # k) pos s cs of
        Some res \<Rightarrow> Some res
      | None \<Rightarrow> rx_run (R b # k) pos s cs)"
| "rx_run (R (Grp i r) # k) pos s cs = rx_run (R r # Cls i pos # k) pos s cs"
| "rx_run (R (Rep g mn mx r) # k) pos s cs =
     (if 0 < mn then rx_run (R r # R (Rep g (mn - 1) (dec_max mx) r) # k) pos s cs
      else if mx = Some 0 then rx_run k pos s cs
      else if g then
        (case rx_run (R r # Chk pos # R (Rep g 0 (dec_max mx) r) # k) pos s cs of
           Some res \<Rightarrow> Some res
         | None \<Rightarrow> rx_run k pos s cs)
      else
        (case rx_run k pos s cs of
           Some res \<Rightarrow> Some res
         | None \<Rightarrow> rx_run (R r # Chk pos # R (Rep g 0 (dec_max mx) r) # k) pos s cs))"
  by pat_completeness auto
termination
proof (relation "measures [\<lambda>(k, pos, s, cs). length s, \<lambda>(k, pos, s, cs). swt k pos]", goal_cases)
  case (12 g mn mx r k pos s cs)
  then show ?case by (cases mn) (simp_all add: algebra_simps)
qed simp_all

text \<open>A match consumes a prefix of the input, and the positions count it.\<close>

lemma rx_run_rest:
  "rx_run k pos s cs = Some (cs', e, rest) \<Longrightarrow> pos \<le> e \<and> length rest + (e - pos) = length s"
proof (induction k pos s cs arbitrary: cs' e rest rule: rx_run.induct)
  case (10 a b k pos s cs)
  then show ?case by (auto split: option.splits)
next
  case (12 g mn mx r k pos s cs)
  then show ?case by (auto split: option.splits if_splits)
qed (auto split: if_splits)

text \<open>
  The leftmost match: the first start position from which the expression matches.
  The result is the start, the end, the captures and the input after the match.
\<close>

type_synonym rmatch = "nat \<times> nat \<times> caps \<times> jstring"

fun rx_search :: "rx \<Rightarrow> nat \<Rightarrow> jstring \<Rightarrow> rmatch option" where
  "rx_search r pos [] =
     (case rx_run [R r] pos [] [] of
        Some (cs, e, rest) \<Rightarrow> Some (pos, e, cs, rest)
      | None \<Rightarrow> None)"
| "rx_search r pos (c # s) =
     (case rx_run [R r] pos (c # s) [] of
        Some (cs, e, rest) \<Rightarrow> Some (pos, e, cs, rest)
      | None \<Rightarrow> rx_search r (pos + 1) s)"

lemma rx_search_rest:
  "rx_search r pos s = Some (st, e, cs, rest) \<Longrightarrow>
     pos \<le> st \<and> st \<le> e \<and> length rest + (e - pos) = length s"
proof (induction r pos s rule: rx_search.induct)
  case (1 r pos)
  then obtain cs0 where "rx_run [R r] pos [] [] = Some (cs0, e, rest)" and "st = pos"
    by (auto split: option.splits)
  then show ?case using rx_run_rest [of "[R r]" pos "[]" "[]" cs0 e rest] by simp
next
  case (2 r pos c s)
  show ?case
  proof (cases "rx_run [R r] pos (c # s) []")
    case None
    with 2 show ?thesis by fastforce
  next
    case (Some a)
    with 2 show ?thesis by (auto split: prod.splits dest: rx_run_rest)
  qed
qed

section \<open>The regular-expression methods of JavaScript\<close>

definition substring :: "jstring \<Rightarrow> nat \<Rightarrow> nat \<Rightarrow> jstring" where
  [ev]: "substring s a b = take (b - a) (drop a s)"

text \<open>\<open>s.match(r)\<close> for an expression without the flag \<open>g\<close>, and \<open>r.test(s)\<close>.\<close>

definition rx_match :: "rx \<Rightarrow> jstring \<Rightarrow> rmatch option" where
  [ev]: "rx_match r s = rx_search r 0 s"

definition rx_test :: "rx \<Rightarrow> jstring \<Rightarrow> bool" where
  [ev]: "rx_test r s = (rx_match r s \<noteq> None)"

text \<open>\<open>m[0]\<close> and \<open>m[i]\<close> of a match \<open>m\<close> on the input \<open>s\<close>; a group that took no part is \<open>None\<close>.\<close>

fun m_text :: "jstring \<Rightarrow> rmatch \<Rightarrow> jstring" where
  "m_text s (st, e, cs, rest) = substring s st e"

fun m_group :: "jstring \<Rightarrow> rmatch \<Rightarrow> nat \<Rightarrow> jstring option" where
  "m_group s (st, e, cs, rest) i =
     (case map_of cs i of
        None \<Rightarrow> None
      | Some (a, b) \<Rightarrow> Some (substring s a b))"

text \<open>
  \<open>s.replace(r, repl)\<close>: the first match only without the flag \<open>g\<close>, every match with it.
  No replacement string of the program contains a \<open>$\<close>. After an empty match the engine
  moves on by one character.
\<close>

definition rx_replace :: "rx \<Rightarrow> jstring \<Rightarrow> jstring \<Rightarrow> jstring" where
  [ev]: "rx_replace r repl s =
     (case rx_search r 0 s of
        None \<Rightarrow> s
      | Some (st, e, cs, rest) \<Rightarrow> take st s @ repl @ rest)"

function rx_replace_from :: "rx \<Rightarrow> jstring \<Rightarrow> nat \<Rightarrow> jstring \<Rightarrow> jstring" where
  "rx_replace_from r repl pos s =
     (case rx_search r pos s of
        None \<Rightarrow> s
      | Some (st, e, cs, rest) \<Rightarrow>
          if st < e then take (st - pos) s @ repl @ rx_replace_from r repl e rest
          else (case rest of
                  [] \<Rightarrow> take (st - pos) s @ repl
                | c # rest' \<Rightarrow> take (st - pos) s @ repl @ c # rx_replace_from r repl (e + 1) rest'))"
  by pat_completeness auto
termination
proof (relation "measure (\<lambda>(r, repl, pos, s). length s)", goal_cases)
  case (2 r repl pos s m st x e y cs rest)
  then show ?case using rx_search_rest [of r pos s st e cs rest] by auto
next
  case (3 r repl pos s m st x e y cs rest c rest')
  then show ?case using rx_search_rest [of r pos s st e cs rest] by simp
qed simp

definition rx_replace_all :: "rx \<Rightarrow> jstring \<Rightarrow> jstring \<Rightarrow> jstring" where
  [ev]: "rx_replace_all r repl s = rx_replace_from r repl 0 s"

text \<open>\<open>s.match(r)\<close> for an expression with the flag \<open>g\<close>: the texts of all matches.\<close>

function rx_match_from :: "rx \<Rightarrow> nat \<Rightarrow> jstring \<Rightarrow> jstring list" where
  "rx_match_from r pos s =
     (case rx_search r pos s of
        None \<Rightarrow> []
      | Some (st, e, cs, rest) \<Rightarrow>
          substring s (st - pos) (e - pos) #
          (if st < e then rx_match_from r e rest
           else (case rest of
                   [] \<Rightarrow> []
                 | c # rest' \<Rightarrow> rx_match_from r (e + 1) rest')))"
  by pat_completeness auto
termination
proof (relation "measure (\<lambda>(r, pos, s). length s)", goal_cases)
  case (2 r pos s m st x e y cs rest)
  then show ?case using rx_search_rest [of r pos s st e cs rest] by auto
next
  case (3 r pos s m st x e y cs rest c rest')
  then show ?case using rx_search_rest [of r pos s st e cs rest] by simp
qed simp

definition rx_match_all :: "rx \<Rightarrow> jstring \<Rightarrow> jstring list" where
  [ev]: "rx_match_all r s = rx_match_from r 0 s"

text \<open>
  The loop \<open>while ((m = r.exec(s)) !== null)\<close> on an expression with the flag \<open>g\<close>: each
  search starts where the last match ended. \<open>exec\<close> does not move on after an empty match,
  so the loop runs forever on one; not returning is the value \<open>None\<close>.
\<close>

partial_function (option) exec_loop :: "rx \<Rightarrow> nat \<Rightarrow> jstring \<Rightarrow> rmatch list option" where
  "exec_loop r pos s =
     (case rx_search r pos s of
        None \<Rightarrow> Some []
      | Some m \<Rightarrow> Option.bind (exec_loop r (fst (snd m)) (snd (snd (snd m)))) (\<lambda>ms. Some (m # ms)))"

text \<open>
  \<open>s.split(r)\<close>: the expression is tried at each position \<open>q\<close> in turn; a match that ends
  where the last piece began is skipped. \<open>cur\<close> is the piece collected since the last
  separator. With \<open>keep\<close> the text of the separator is spliced in, which is what the
  program's only capturing separator, a single group around the whole expression, does.
\<close>

function split_loop :: "rx \<Rightarrow> bool \<Rightarrow> jstring \<Rightarrow> nat \<Rightarrow> jstring \<Rightarrow> jstring \<Rightarrow> jstring list" where
  "split_loop r keep inp q [] cur = [cur]"
| "split_loop r keep inp q (c # s) cur =
     (case rx_run [R r] q (c # s) [] of
        None \<Rightarrow> split_loop r keep inp (q + 1) s (cur @ [c])
      | Some (cs, e, rest) \<Rightarrow>
          if e = q \<and> cur = [] then split_loop r keep inp (q + 1) s (cur @ [c])
          else cur # (if keep then [substring inp q e] else []) @ split_loop r keep inp e rest [])"
  by pat_completeness auto
termination
proof (relation "measures [\<lambda>(r, keep, inp, q, s, cur). length s,
    \<lambda>(r, keep, inp, q, s, cur). length cur]", goal_cases)
  case (4 r keep inp q c s cur m cs x e rest)
  then show ?case using rx_run_rest [of "[R r]" q "c # s" "[]" cs e rest] by auto
qed simp_all

definition rx_split :: "rx \<Rightarrow> bool \<Rightarrow> jstring \<Rightarrow> jstring list" where
  [ev]: "rx_split r keep s =
     (if s = [] then (if rx_run [R r] 0 [] [] = None then [[]] else [])
      else split_loop r keep s 0 s [])"

subsection \<open>Notation for writing the expressions\<close>

fun seqs :: "rx list \<Rightarrow> rx" where
  "seqs [] = Eps"
| "seqs [r] = r"
| "seqs (r # rs) = Seq r (seqs rs)"

fun alts :: "rx list \<Rightarrow> rx" where
  "alts [] = Eps"
| "alts [r] = r"
| "alts (r # rs) = Alt r (alts rs)"

definition chr :: "char \<Rightarrow> rx" where
  [ev]: "chr c = Ch (\<lambda>x. x = of_char c)"

text \<open>A letter under the flag \<open>i\<close> matches in both cases.\<close>

definition chr_ci :: "char \<Rightarrow> rx" where
  [ev]: "chr_ci c = Ch (\<lambda>x. lower_char x = lower_char (of_char c))"

definition lit :: "string \<Rightarrow> rx" where
  [ev]: "lit s = seqs (map chr s)"

definition lit_ci :: "string \<Rightarrow> rx" where
  [ev]: "lit_ci s = seqs (map chr_ci s)"

abbreviation rstar :: "rx \<Rightarrow> rx" where
  "rstar r \<equiv> Rep True 0 None r"

abbreviation rplus :: "rx \<Rightarrow> rx" where
  "rplus r \<equiv> Rep True 1 None r"

abbreviation rlazy :: "rx \<Rightarrow> rx" where
  "rlazy r \<equiv> Rep False 1 None r"

abbreviation ropt :: "rx \<Rightarrow> rx" where
  "ropt r \<equiv> Rep True 0 (Some 1) r"

abbreviation rrep :: "nat \<Rightarrow> nat \<Rightarrow> rx \<Rightarrow> rx" where
  "rrep mn mx r \<equiv> Rep True mn (Some mx) r"

abbreviation ws :: rx where
  "ws \<equiv> Ch is_space"

abbreviation digit :: rx where
  "digit \<equiv> Ch is_digit"

abbreviation dot :: rx where
  "dot \<equiv> Ch is_dot"

subsection \<open>The least length of a match\<close>

text \<open>
  \<open>rx_min r\<close> is a lower bound on the length of a match of \<open>r\<close>. An expression with a
  positive bound has no empty match, so the loop over its matches ends.
\<close>

fun rx_min :: "rx \<Rightarrow> nat" where
  "rx_min (Ch p) = 1"
| "rx_min Eps = 0"
| "rx_min Bol = 0"
| "rx_min Eol = 0"
| "rx_min (Seq a b) = rx_min a + rx_min b"
| "rx_min (Alt a b) = min (rx_min a) (rx_min b)"
| "rx_min (Rep g mn mx r) = mn * rx_min r"
| "rx_min (Grp i r) = rx_min r"

fun smin :: "item list \<Rightarrow> nat" where
  "smin [] = 0"
| "smin (R r # k) = rx_min r + smin k"
| "smin (Chk p # k) = smin k"
| "smin (Cls i p # k) = smin k"

lemma rx_run_min:
  "rx_run k pos s cs = Some (cs', e, rest) \<Longrightarrow> pos + smin k \<le> e"
proof (induction k pos s cs arbitrary: cs' e rest rule: rx_run.induct)
  case (10 a b k pos s cs)
  then show ?case by (fastforce split: option.splits)
next
  case (12 g mn mx r k pos s cs)
  show ?case
  proof (cases "0 < mn")
    case True
    then have "rx_run (R r # R (Rep g (mn - 1) (dec_max mx) r) # k) pos s cs = Some (cs', e, rest)"
      using "12.prems" by simp
    from "12.IH"(1) [OF True this] True show ?thesis
      by (cases mn) (simp_all add: algebra_simps)
  next
    case False
    then show ?thesis using "12.IH"(2-) "12.prems"
      by (auto split: option.splits if_splits)
  qed
qed (auto split: if_splits)

lemma rx_search_min:
  "rx_search r pos s = Some (st, e, cs, rest) \<Longrightarrow> st + rx_min r \<le> e"
proof (induction r pos s rule: rx_search.induct)
  case (1 r pos)
  then show ?case by (auto split: option.splits dest!: rx_run_min)
next
  case (2 r pos c s)
  then show ?case by (auto split: option.splits dest!: rx_run_min)
qed

lemma exec_loop_total:
  assumes "0 < rx_min r"
  shows "exec_loop r pos s \<noteq> None"
proof (induction "length s" arbitrary: pos s rule: less_induct)
  case less
  show ?case
  proof (cases "rx_search r pos s")
    case None
    then show ?thesis by (subst exec_loop.simps) simp
  next
    case (Some m)
    obtain st e cs rest where m: "m = (st, e, cs, rest)" by (cases m) auto
    from Some m rx_search_min [of r pos s st e cs rest] assms have "st < e" by simp
    with Some m rx_search_rest [of r pos s st e cs rest] have "length rest < length s" by auto
    from less [OF this] obtain ms where "exec_loop r e rest = Some ms" by auto
    with Some m show ?thesis by (subst exec_loop.simps) simp
  qed
qed

section \<open>Data model\<close>

datatype Severity = Error | Warning | Info

datatype CitationType =
  Journal | Book | Chapter | Web | Report | Conference | Dissertation | Unknown

text \<open>
  An optional field of the TypeScript interfaces is an \<open>option\<close>. Several interfaces share
  field names; the selectors of \<open>ParsedCitation\<close> and \<open>ValidationError\<close> are written
  plainly and those of the other records with the name of the record.
\<close>

record Author =
  lastName :: jstring
  initials :: jstring
  isGroupAuthor :: "bool option"

record CrossRefWork =
  doi :: jstring
  title :: jstring
  authors :: "Author list"
  year :: jstring
  source :: jstring
  volume :: "jstring option"
  issue :: "jstring option"
  pages :: "jstring option"
  type :: jstring
  publisher :: "jstring option"
  editors :: "Author list option"
  edition :: "jstring option"
  reportNumber :: "jstring option"
  conferenceName :: "jstring option"
  institution :: "jstring option"

record ManualFix =
  rule :: jstring
  field :: jstring
  message :: jstring
  hint :: jstring

record AutoFix =
  rule :: jstring
  field :: jstring
  original :: jstring
  fixed :: jstring
  description :: jstring

record ValidationError =
  rule :: jstring
  field :: jstring
  message :: jstring
  severity :: Severity
  original :: jstring
  suggested :: "jstring option"
  autoFixable :: bool

record ParsedCitation =
  raw :: jstring
  authors :: "Author list"
  year :: jstring
  title :: jstring
  source :: jstring
  volume :: "jstring option"
  issue :: "jstring option"
  pages :: "jstring option"
  doi :: "jstring option"
  url :: "jstring option"
  publisher :: "jstring option"
  editors :: "Author list option"
  edition :: "jstring option"
  type :: CitationType
  fullDate :: "jstring option"
  yearSuffix :: "jstring option"
  reportNumber :: "jstring option"
  bracketType :: "jstring option"
  conferenceName :: "jstring option"
  institution :: "jstring option"
  databaseName :: "jstring option"
  isGroupAuthor :: "bool option"

text \<open>The name of a citation type, as the union type of \<open>ParsedCitation['type']\<close> spells it.\<close>

fun type_name :: "CitationType \<Rightarrow> jstring" where
  "type_name Journal = js ''journal''"
| "type_name Book = js ''book''"
| "type_name Chapter = js ''chapter''"
| "type_name Web = js ''web''"
| "type_name Report = js ''report''"
| "type_name Conference = js ''conference''"
| "type_name Dissertation = js ''dissertation''"
| "type_name Unknown = js ''unknown''"

text \<open>\<open>xs.map((x, index) => f(index, x))\<close>.\<close>

definition map_index :: "(nat \<Rightarrow> 'a \<Rightarrow> 'b) \<Rightarrow> 'a list \<Rightarrow> 'b list" where
  [ev]: "map_index f xs = map (\<lambda>(i, x). f i x) (enumerate 0 xs)"

section \<open>The validation rules (rules.ts)\<close>

subsection \<open>Helpers\<close>

text \<open>\<open>word.charAt(0).toUpperCase() + word.slice(1).toLowerCase()\<close>\<close>

definition capitalize :: "jstring \<Rightarrow> jstring" where
  [ev]: "capitalize word = toUpperCase (take 1 word) @ toLowerCase (drop 1 word)"

text \<open>\<open>/^[A-Z]{2,5}$/\<close>\<close>

definition acronymPattern :: rx where
  [ev]: "acronymPattern = seqs [Bol, rrep 2 5 (Ch is_upper), Eol]"

text \<open>\<open>/([:.]\s)/\<close> and \<open>/^[:.]\s$/\<close>\<close>

definition delimiterSplit :: rx where
  [ev]: "delimiterSplit = Grp 1 (seqs [Ch (\<lambda>c. c = 58 \<or> c = 46), ws])"

definition delimiterOnly :: rx where
  [ev]: "delimiterOnly = seqs [Bol, Ch (\<lambda>c. c = 58 \<or> c = 46), ws, Eol]"

definition sentenceCaseWord :: "nat \<Rightarrow> jstring \<Rightarrow> jstring" where
  [ev]: "sentenceCaseWord wordIndex word =
     (if wordIndex = 0 then capitalize word
      else if rx_test acronymPattern word then word
      else toLowerCase word)"

definition toSentenceCase :: "jstring \<Rightarrow> jstring" where
  [ev]: "toSentenceCase t =
     concat (map (\<lambda>part.
       if rx_test delimiterOnly part then part
       else join (js '' '') (map_index sentenceCaseWord (rx_split (rplus ws) False part)))
       (rx_split delimiterSplit True t))"

text \<open>
  \<open>capitalizedWords.length >= words.length * 0.6\<close>: the product is computed in floating
  point; it is the exact integer whenever \<open>0.6 * n\<close> is one, so the comparison with an
  integer agrees with the one over the rationals.
\<close>

definition isLikelyTitleCase :: "jstring \<Rightarrow> bool" where
  [ev]: "isLikelyTitleCase t =
     (let words = filter (\<lambda>w. length w > 3) (rx_split (rplus ws) False t);
          capitalizedWords = filter (\<lambda>w. rx_test (seqs [Bol, Ch is_upper]) w) words
      in length capitalizedWords \<ge> 3
         \<and> (of_nat (length capitalizedWords) :: rat) \<ge> of_nat (length words) * (6 / 10))"

subsection \<open>\<open>JSON.stringify\<close> of an author\<close>

definition hex_digit :: "nat \<Rightarrow> jschar" where
  [ev]: "hex_digit d = (if d < 10 then 48 + d else 87 + d)"

definition unicode_escape :: "jschar \<Rightarrow> jstring" where
  [ev]: "unicode_escape c =
     [92, 117, hex_digit (c div 4096 mod 16), hex_digit (c div 256 mod 16),
      hex_digit (c div 16 mod 16), hex_digit (c mod 16)]"

definition is_high_surrogate :: "jschar \<Rightarrow> bool" where
  [ev]: "is_high_surrogate c = (55296 \<le> c \<and> c \<le> 56319)"

definition is_low_surrogate :: "jschar \<Rightarrow> bool" where
  [ev]: "is_low_surrogate c = (56320 \<le> c \<and> c \<le> 57343)"

definition json_escape_unit :: "jschar \<Rightarrow> jstring" where
  [ev]: "json_escape_unit c =
     (if c = 8 then [92, 98]
      else if c = 9 then [92, 116]
      else if c = 10 then [92, 110]
      else if c = 12 then [92, 102]
      else if c = 13 then [92, 114]
      else if c = 34 then [92, 34]
      else if c = 92 then [92, 92]
      else if c < 32 \<or> is_high_surrogate c \<or> is_low_surrogate c then unicode_escape c
      else [c])"

fun json_escape :: "jstring \<Rightarrow> jstring" where
  "json_escape [] = []"
| "json_escape [c] = json_escape_unit c"
| "json_escape (c # d # s) =
     (if is_high_surrogate c \<and> is_low_surrogate d then c # d # json_escape s
      else json_escape_unit c @ json_escape (d # s))"

definition json_string :: "jstring \<Rightarrow> jstring" where
  [ev]: "json_string s = [34] @ json_escape s @ [34]"

text \<open>The keys are printed in the order in which the parser writes them.\<close>

definition JSON_stringify_author :: "Author \<Rightarrow> jstring" where
  [ev]: "JSON_stringify_author a =
     js ''{'' @ json_string (js ''lastName'') @ js '':'' @ json_string (lastName a)
     @ js '','' @ json_string (js ''initials'') @ js '':'' @ json_string (initials a)
     @ (case Author.isGroupAuthor a of
          None \<Rightarrow> []
        | Some b \<Rightarrow> js '','' @ json_string (js ''isGroupAuthor'') @ js '':''
            @ (if b then js ''true'' else js ''false''))
     @ js ''}''"

subsection \<open>Author format\<close>

text \<open>\<open>/^([A-Z]\.\s)*[A-Z]\.$/\<close>\<close>

definition initialsPattern :: rx where
  [ev]: "initialsPattern =
     seqs [Bol, rstar (Grp 1 (seqs [Ch is_upper, chr CHR ''.'', ws])), Ch is_upper, chr CHR ''.'', Eol]"

text \<open>The callback of \<open>citation.authors.forEach((author, index) => ...)\<close>.\<close>

definition checkAuthor :: "nat \<Rightarrow> Author \<Rightarrow> ValidationError list" where
  [ev]: \<open>checkAuthor index author =
     (if Author.isGroupAuthor author = Some True then
        (if lastName author = [] \<or> trim (lastName author) = [] then
           [\<lparr>rule = js ''authorFormat'', field = js ''authors'',
             message = js ''Author '' @ show_nat (index + 1) @ js '' missing organization name'',
             severity = Error, original = JSON_stringify_author author,
             suggested = None, autoFixable = False\<rparr>]
         else [])
      else
        (if initials author = [] then
           [\<lparr>rule = js ''authorFormat'', field = js ''authors'',
             message = js ''Author '' @ show_nat (index + 1) @ js '' ('' @ lastName author
               @ js '') missing initials'',
             severity = Error, original = lastName author,
             suggested = None, autoFixable = False\<rparr>]
         else if \<not> rx_test initialsPattern (initials author) then
           (let suggested' =
              join (js '' '')
                (map (\<lambda>i. if endsWith i (js ''.'') then i else i @ js ''.'')
                  (split_chr 32
                    (trim (rx_replace_all (rplus ws) (js '' '')
                      (rx_replace_all (chr CHR ''.'') (js ''. '') (initials author))))))
            in [\<lparr>rule = js ''authorFormat'', field = js ''authors'',
                 message = js ''Author '' @ show_nat (index + 1)
                   @ js '' initials should be formatted as "F. M." (with spaces and periods)'',
                 severity = Error, original = initials author,
                 suggested = Some suggested', autoFixable = True\<rparr>])
         else [])
        @ (if lastName author = [] \<or> trim (lastName author) = [] then
             [\<lparr>rule = js ''authorFormat'', field = js ''authors'',
               message = js ''Author '' @ show_nat (index + 1) @ js '' missing last name'',
               severity = Error, original = JSON_stringify_author author,
               suggested = None, autoFixable = False\<rparr>]
           else []))\<close>

definition checkAuthorFormat :: "ParsedCitation \<Rightarrow> ValidationError list" where
  [ev]: "checkAuthorFormat citation = concat (map_index checkAuthor (authors citation))"

subsection \<open>Year format\<close>

text \<open>\<open>/^\d{4}$|^n\.d\.$|^in press$/\<close>\<close>

definition validYearPattern :: rx where
  [ev]: "validYearPattern =
     alts [seqs [Bol, rrep 4 4 digit, Eol], seqs [Bol, lit ''n.d.'', Eol],
           seqs [Bol, lit ''in press'', Eol]]"

definition checkYearFormat :: "ParsedCitation \<Rightarrow> ValidationError list" where
  [ev]: \<open>checkYearFormat citation =
     (if year citation = [] then
        [\<lparr>rule = js ''yearFormat'', field = js ''year'', message = js ''Year is missing'',
          severity = Error, original = [], suggested = None, autoFixable = False\<rparr>]
      else if \<not> rx_test validYearPattern (year citation) then
        (let yearMatch = rx_match (rrep 4 4 digit) (year citation);
             suggested' = (case yearMatch of Some m \<Rightarrow> m_text (year citation) m | None \<Rightarrow> [])
         in [\<lparr>rule = js ''yearFormat'', field = js ''year'',
              message = js ''Year should be 4-digit format (YYYY), "n.d.", or "in press"'',
              severity = Error, original = year citation,
              suggested = Some suggested', autoFixable = (suggested' \<noteq> [])\<rparr>])
      else [])\<close>

subsection \<open>Title case\<close>

definition checkTitleCase :: "ParsedCitation \<Rightarrow> ValidationError list" where
  [ev]: "checkTitleCase citation =
     (if title citation = [] then
        [\<lparr>rule = js ''titleCase'', field = js ''title'', message = js ''Title is missing'',
          severity = Error, original = [], suggested = None, autoFixable = False\<rparr>]
      else if isLikelyTitleCase (title citation) then
        [\<lparr>rule = js ''titleCase'', field = js ''title'',
          message = js ''Title should use sentence case (only first word and proper nouns capitalized)'',
          severity = Warning, original = title citation,
          suggested = Some (toSentenceCase (title citation)), autoFixable = True\<rparr>]
      else [])"

subsection \<open>DOI presence and format\<close>

definition checkDOIPresence :: "ParsedCitation \<Rightarrow> ValidationError list" where
  [ev]: "checkDOIPresence citation =
     (if type citation = Journal \<and> \<not> truthy (doi citation) then
        [\<lparr>rule = js ''doiPresence'', field = js ''doi'',
          message = js ''DOI should be included when available for journal articles'',
          severity = Warning, original = [], suggested = None, autoFixable = False\<rparr>]
      else [])"

text \<open>\<open>/^doi:\s*/\<close> and \<open>/^10\.\d+\//\<close>\<close>

definition doiPrefixPattern :: rx where
  [ev]: "doiPrefixPattern = seqs [Bol, lit ''doi:'', rstar ws]"

definition doiNumberPattern :: rx where
  [ev]: "doiNumberPattern = seqs [Bol, lit ''10.'', rplus digit, chr CHR ''/'']"

definition checkDOIFormat :: "ParsedCitation \<Rightarrow> ValidationError list" where
  [ev]: "checkDOIFormat citation =
     (if \<not> truthy (doi citation) then []
      else
        (let doi' = trim (or_empty (doi citation)) in
         (if endsWith doi' (js ''.'') then
            [\<lparr>rule = js ''doiFormat'', field = js ''doi'',
              message = js ''DOI should not end with a period'',
              severity = Error, original = doi',
              suggested = Some (butlast doi'), autoFixable = True\<rparr>]
          else [])
         @ (if startsWith doi' (js ''doi:'') then
              (let doiNumber = rx_replace doiPrefixPattern [] doi' in
               [\<lparr>rule = js ''doiFormat'', field = js ''doi'',
                 message = js ''DOI should use format https://doi.org/...'',
                 severity = Error, original = doi',
                 suggested = Some (js ''https://doi.org/'' @ doiNumber), autoFixable = True\<rparr>])
            else if \<not> startsWith doi' (js ''https://doi.org/'') then
              (if rx_test doiNumberPattern doi' then
                 [\<lparr>rule = js ''doiFormat'', field = js ''doi'',
                   message = js ''DOI should include full URL https://doi.org/...'',
                   severity = Error, original = doi',
                   suggested = Some (js ''https://doi.org/'' @ doi'), autoFixable = True\<rparr>]
               else
                 [\<lparr>rule = js ''doiFormat'', field = js ''doi'',
                   message = js ''DOI should start with https://doi.org/'',
                   severity = Error, original = doi',
                   suggested = None, autoFixable = False\<rparr>])
            else [])))"

subsection \<open>Volume and issue\<close>

text \<open>\<open>/vol\.?\s*/i\<close>, \<open>/no\.?\s*/i\<close>, \<open>/pp\.?\s*/i\<close> and \<open>/^\d+$/\<close>\<close>

definition volPrefix :: rx where
  [ev]: "volPrefix = seqs [lit_ci ''vol'', ropt (chr CHR ''.''), rstar ws]"

definition noPrefix :: rx where
  [ev]: "noPrefix = seqs [lit_ci ''no'', ropt (chr CHR ''.''), rstar ws]"

definition ppPrefix :: rx where
  [ev]: "ppPrefix = seqs [lit_ci ''pp'', ropt (chr CHR ''.''), rstar ws]"

definition numericPattern :: rx where
  [ev]: "numericPattern = seqs [Bol, rplus digit, Eol]"

definition checkVolumeIssueFormat :: "ParsedCitation \<Rightarrow> ValidationError list" where
  [ev]: \<open>checkVolumeIssueFormat citation =
     (if truthy (volume citation) then
        (let volume' = or_empty (volume citation) in
         (if str_includes (toLowerCase volume') (js ''vol'') then
            [\<lparr>rule = js ''volumeFormat'', field = js ''volume'',
              message = js ''Volume should not include "Vol." prefix'',
              severity = Error, original = volume',
              suggested = Some (rx_replace volPrefix [] volume'), autoFixable = True\<rparr>]
          else [])
         @ (let cleanVolume = rx_replace volPrefix [] volume' in
            if \<not> rx_test numericPattern cleanVolume then
              [\<lparr>rule = js ''volumeFormat'', field = js ''volume'',
                message = js ''Volume should be a number'',
                severity = Warning, original = volume',
                suggested = None, autoFixable = False\<rparr>]
            else []))
      else [])
     @ (if truthy (issue citation) then
          (let issue' = or_empty (issue citation) in
           if str_includes (toLowerCase issue') (js ''no'') then
             [\<lparr>rule = js ''issueFormat'', field = js ''issue'',
               message = js ''Issue should not include "No." prefix'',
               severity = Error, original = issue',
               suggested = Some (rx_replace noPrefix [] issue'), autoFixable = True\<rparr>]
           else [])
        else [])\<close>

subsection \<open>Page format\<close>

definition checkPageFormat :: "ParsedCitation \<Rightarrow> ValidationError list" where
  [ev]: \<open>checkPageFormat citation =
     (if \<not> truthy (pages citation) then []
      else
        (let pages' = trim (or_empty (pages citation)) in
         (if type citation = Journal \<and> startsWith (toLowerCase pages') (js ''pp'') then
            [\<lparr>rule = js ''pageFormat'', field = js ''pages'',
              message = js ''Page numbers should not include "pp." prefix for journal articles'',
              severity = Error, original = pages',
              suggested = Some (rx_replace ppPrefix [] pages'), autoFixable = True\<rparr>]
          else [])
         @ (let cleanPages = rx_replace ppPrefix [] pages' in
            if str_includes cleanPages (js ''-'') \<and> \<not> str_includes cleanPages [en_dash] then
              [\<lparr>rule = js ''pageFormat'', field = js ''pages'',
                message = js ''Page range should use en dash ('' @ [en_dash] @ js '') not hyphen (-)'',
                severity = Warning, original = pages',
                suggested = Some (rx_replace_all (chr CHR ''-'') [en_dash] cleanPages),
                autoFixable = True\<rparr>]
            else [])))\<close>

subsection \<open>Ampersand\<close>

text \<open>\<open>/\(\d{4}/\<close>\<close>

definition yearOpenPattern :: rx where
  [ev]: "yearOpenPattern = seqs [chr CHR ''('', rrep 4 4 digit]"

definition checkAmpersand :: "ParsedCitation \<Rightarrow> ValidationError list" where
  [ev]: \<open>checkAmpersand citation =
     (if length (authors citation) < 2 then []
      else
        (if length (authors citation) \<ge> 2 \<and> length (authors citation) \<le> 20 then
           (let yearMatch = rx_match yearOpenPattern (raw citation);
                authorBlock =
                  (case yearMatch of
                     Some m \<Rightarrow>
                       (case indexOf (raw citation) (m_text (raw citation) m) of
                          Some i \<Rightarrow> take i (raw citation)
                        | None \<Rightarrow> [])
                   | None \<Rightarrow> [])
            in if authorBlock \<noteq> [] \<and> str_includes authorBlock (js '' and '') then
                 [\<lparr>rule = js ''ampersand'', field = js ''authors'',
                   message = js ''Use ampersand (&) not "and" before last author in reference list'',
                   severity = Error, original = trim authorBlock,
                   suggested = None, autoFixable = True\<rparr>]
               else [])
         else [])
        @ (if length (authors citation) > 20 then
             [\<lparr>rule = js ''ampersand'', field = js ''authors'',
               message = js ''For 21+ authors, use first 19 authors, ellipsis (...), then last author'',
               severity = Info,
               original = show_nat (length (authors citation)) @ js '' authors listed'',
               suggested = None, autoFixable = True\<rparr>]
           else []))\<close>

subsection \<open>Journal and conference names\<close>

definition MINOR_WORDS :: "jstring list" where
  [ev]: "MINOR_WORDS = map js
     [''a'', ''an'', ''the'',
      ''and'', ''but'', ''or'', ''nor'', ''for'', ''yet'', ''so'',
      ''of'', ''in'', ''on'', ''at'', ''to'', ''by'', ''up'', ''as'', ''if'', ''is'',
      ''it'', ''its'', ''vs'', ''via'', ''per'', ''with'', ''from'']"

definition titleCaseWord :: "nat \<Rightarrow> nat \<Rightarrow> jstring \<Rightarrow> jstring" where
  [ev]: "titleCaseWord n index word =
     (if index = 0 \<or> index = n - 1 then capitalize word
      else if rx_test acronymPattern word then word
      else if toLowerCase word \<in> set MINOR_WORDS then toLowerCase word
      else capitalize word)"

definition toTitleCase :: "jstring \<Rightarrow> jstring" where
  [ev]: "toTitleCase text =
     (let words = rx_split (rplus ws) False text
      in join (js '' '') (map_index (titleCaseWord (length words)) words))"

text \<open>
  The loop counts the words that start with a lower-case letter, a minor word that is
  neither first nor last apart.
\<close>

definition isJournalNameNotTitleCase :: "jstring \<Rightarrow> bool" where
  [ev]: "isJournalNameNotTitleCase source' =
     (let words = filter (\<lambda>w. length w > 0) (rx_split (rplus ws) False source')
      in if length words < 2 then False
         else
           (let majorWordsLowercase =
              length (filter (\<lambda>(i, word).
                  \<not> (i > 0 \<and> i < length words - 1 \<and> toLowerCase word \<in> set MINOR_WORDS)
                  \<and> rx_test (seqs [Bol, Ch is_lower]) word)
                (enumerate 0 words))
            in majorWordsLowercase \<ge> 2))"

definition checkJournalNameCase :: "ParsedCitation \<Rightarrow> ValidationError list" where
  [ev]: "checkJournalNameCase citation =
     (if type citation \<noteq> Journal \<or> source citation = [] then []
      else if isJournalNameNotTitleCase (source citation) then
        [\<lparr>rule = js ''journalNameCase'', field = js ''source'',
          message = js ''Journal name should use Title Case (capitalize major words)'',
          severity = Warning, original = source citation,
          suggested = Some (toTitleCase (source citation)), autoFixable = True\<rparr>]
      else [])"

definition checkConferenceNameCase :: "ParsedCitation \<Rightarrow> ValidationError list" where
  [ev]: "checkConferenceNameCase citation =
     (if type citation \<noteq> Chapter \<or> source citation = [] then []
      else
        (let conferenceName' =
           (if startsWith (source citation) (js ''In '') then drop 3 (source citation)
            else source citation)
         in if isJournalNameNotTitleCase conferenceName' then
              [\<lparr>rule = js ''conferenceNameCase'', field = js ''source'',
                message = js ''Conference/proceedings name should use Title Case (proper noun)'',
                severity = Warning, original = source citation,
                suggested = Some (js ''In '' @ toTitleCase conferenceName'), autoFixable = True\<rparr>]
            else []))"

subsection \<open>Structural rules\<close>

definition checkChapterEditors :: "ParsedCitation \<Rightarrow> ValidationError list" where
  [ev]: "checkChapterEditors citation =
     (if type citation \<noteq> Chapter then []
      else if editors citation = None \<or> editors citation = Some [] then
        [\<lparr>rule = js ''chapterEditors'', field = js ''editors'',
          message = js ''Book chapter should include editor(s): In F. M. Editor (Ed.), Book title'',
          severity = Warning, original = [], suggested = None, autoFixable = False\<rparr>]
      else [])"

text \<open>\<open>/https?:\/\/[^\s]+$/\<close> and \<open>/doi\.org\/[^\s]+$/\<close>\<close>

definition urlAtEnd :: rx where
  [ev]: "urlAtEnd =
     seqs [lit ''http'', ropt (chr CHR ''s''), lit ''://'', rplus (Ch (\<lambda>c. \<not> is_space c)), Eol]"

definition doiAtEnd :: rx where
  [ev]: "doiAtEnd = seqs [lit ''doi.org/'', rplus (Ch (\<lambda>c. \<not> is_space c)), Eol]"

definition checkTerminalPeriod :: "ParsedCitation \<Rightarrow> ValidationError list" where
  [ev]: "checkTerminalPeriod citation =
     (let raw' = trim (raw citation) in
      if raw' = [] then []
      else if rx_test urlAtEnd raw' \<or> rx_test doiAtEnd raw' then []
      else if \<not> endsWith raw' (js ''.'') then
        [\<lparr>rule = js ''terminalPeriod'', field = js ''raw'',
          message = js ''Citation should end with a period'',
          severity = Warning, original = drop (length raw' - 20) raw',
          suggested = Some (raw' @ js ''.''), autoFixable = True\<rparr>]
      else [])"

definition checkFullDateRequired :: "ParsedCitation \<Rightarrow> ValidationError list" where
  [ev]: "checkFullDateRequired citation =
     (if type citation \<noteq> Conference then []
      else if \<not> truthy (fullDate citation) then
        [\<lparr>rule = js ''fullDateRequired'', field = js ''year'',
          message = js ''Conference presentations should include the full date (year, month day''
            @ [en_dash] @ js ''day)'',
          severity = Warning, original = year citation,
          suggested = None, autoFixable = False\<rparr>]
      else [])"

definition checkPublisherRequired :: "ParsedCitation \<Rightarrow> ValidationError list" where
  [ev]: "checkPublisherRequired citation =
     (if type citation \<notin> set [Book, Chapter, Report] then []
      else if \<not> truthy (publisher citation) \<and> source citation = [] then
        [\<lparr>rule = js ''publisherRequired'', field = js ''publisher'',
          message =
            (if type citation = Chapter then js ''Book chapter''
             else if type citation = Report then js ''Report'' else js ''Book'')
            @ js '' should include a publisher'',
          severity = Error, original = [], suggested = None, autoFixable = False\<rparr>]
      else [])"

definition checkEditionFormat :: "ParsedCitation \<Rightarrow> ValidationError list" where
  [ev]: \<open>checkEditionFormat citation =
     (if \<not> truthy (edition citation) then []
      else if \<not> rx_test numericPattern (or_empty (edition citation)) then
        [\<lparr>rule = js ''editionFormat'', field = js ''edition'',
          message = js ''Edition should be a number (e.g., "2" for 2nd edition)'',
          severity = Error, original = or_empty (edition citation),
          suggested = None, autoFixable = False\<rparr>]
      else [])\<close>

text \<open>\<open>/^([A-Z][a-zA-Z\s]+,\s*[A-Z]{2}:\s*)/\<close>\<close>

definition locationPattern :: rx where
  [ev]: "locationPattern =
     seqs [Bol, Grp 1 (seqs [Ch is_upper,
       rplus (Ch (\<lambda>c. is_lower c \<or> is_upper c \<or> is_space c)), chr CHR '','', rstar ws,
       rrep 2 2 (Ch is_upper), chr CHR '':'', rstar ws])]"

definition checkPublisherLocation :: "ParsedCitation \<Rightarrow> ValidationError list" where
  [ev]: \<open>checkPublisherLocation citation =
     (let pub = (if truthy (publisher citation) then or_empty (publisher citation)
                 else source citation)
      in case rx_match locationPattern pub of
           Some locationMatch \<Rightarrow>
             [\<lparr>rule = js ''publisherLocation'', field = js ''publisher'',
               message = js ''APA 7th edition no longer includes publisher location. Remove "City, ST:" prefix.'',
               severity = Warning, original = pub,
               suggested = Some (trim (replace_str pub (or_empty (m_group pub locationMatch 1)) [])),
               autoFixable = True\<rparr>]
         | None \<Rightarrow> [])\<close>

definition checkInPrefix :: "ParsedCitation \<Rightarrow> ValidationError list" where
  [ev]: \<open>checkInPrefix citation =
     (if type citation \<noteq> Chapter \<or> source citation = [] then []
      else if \<not> startsWith (source citation) (js ''In '') then
        [\<lparr>rule = js ''inPrefix'', field = js ''source'',
          message = js ''Book chapter source should begin with "In " (e.g., In F. Editor (Ed.), Book title)'',
          severity = Error, original = source citation,
          suggested = Some (js ''In '' @ source citation), autoFixable = True\<rparr>]
      else [])\<close>

definition checkBracketType :: "ParsedCitation \<Rightarrow> ValidationError list" where
  [ev]: "checkBracketType citation =
     (if type citation \<notin> set [Conference, Dissertation] then []
      else if \<not> truthy (bracketType citation) then
        (let expected =
           (if type citation = Conference then js ''[Paper presentation]''
            else js ''[Doctoral dissertation, Institution Name]'')
         in [\<lparr>rule = js ''bracketType'', field = js ''bracketType'',
              message =
                (if type citation = Conference then js ''Conference presentation''
                 else js ''Dissertation'')
                @ js '' should include type descriptor in brackets (e.g., '' @ expected @ js '')'',
              severity = Error, original = [], suggested = None, autoFixable = False\<rparr>])
      else [])"

definition checkConferenceInfo :: "ParsedCitation \<Rightarrow> ValidationError list" where
  [ev]: "checkConferenceInfo citation =
     (if type citation \<noteq> Conference then []
      else if \<not> truthy (conferenceName citation) then
        [\<lparr>rule = js ''conferenceInfo'', field = js ''conferenceName'',
          message = js ''Conference presentation should include conference name and location'',
          severity = Error, original = [], suggested = None, autoFixable = False\<rparr>]
      else [])"

definition checkDissertationInfo :: "ParsedCitation \<Rightarrow> ValidationError list" where
  [ev]: "checkDissertationInfo citation =
     (if type citation \<noteq> Dissertation then []
      else if \<not> truthy (institution citation) then
        [\<lparr>rule = js ''dissertationInfo'', field = js ''institution'',
          message = js ''Dissertation should include institution name in brackets (e.g., [Doctoral dissertation, University Name])'',
          severity = Error, original = [], suggested = None, autoFixable = False\<rparr>]
      else [])"

definition checkReportNumber :: "ParsedCitation \<Rightarrow> ValidationError list" where
  [ev]: "checkReportNumber citation =
     (if type citation \<noteq> Report then []
      else if \<not> truthy (reportNumber citation) then
        [\<lparr>rule = js ''reportNumber'', field = js ''reportNumber'',
          message = js ''Report should include a report number if available (e.g., Report No. 2024-01)'',
          severity = Info, original = [], suggested = None, autoFixable = False\<rparr>]
      else [])"

subsection \<open>Routing\<close>

type_synonym ValidationRule = "ParsedCitation \<Rightarrow> ValidationError list"

text \<open>A routed rule: the rule and the types it applies to, \<open>None\<close> for \<open>'all'\<close>.\<close>

type_synonym RoutedRule = "ValidationRule \<times> CitationType list option"

definition ROUTED_RULES :: "RoutedRule list" where
  [ev]: "ROUTED_RULES =
     [(checkAuthorFormat, None),
      (checkYearFormat, None),
      (checkTitleCase, None),
      (checkDOIFormat, None),
      (checkAmpersand, None),
      (checkTerminalPeriod, None),
      (checkDOIPresence, Some [Journal]),
      (checkVolumeIssueFormat, Some [Journal]),
      (checkJournalNameCase, Some [Journal]),
      (checkPageFormat, Some [Journal, Chapter]),
      (checkConferenceNameCase, Some [Chapter]),
      (checkChapterEditors, Some [Chapter]),
      (checkInPrefix, Some [Chapter]),
      (checkPublisherRequired, Some [Book, Chapter, Report]),
      (checkEditionFormat, Some [Book, Chapter]),
      (checkPublisherLocation, Some [Book, Chapter]),
      (checkFullDateRequired, Some [Conference]),
      (checkConferenceInfo, Some [Conference]),
      (checkBracketType, Some [Conference, Dissertation]),
      (checkDissertationInfo, Some [Dissertation]),
      (checkReportNumber, Some [Report])]"

definition getRulesForType :: "CitationType \<Rightarrow> ValidationRule list" where
  [ev]: "getRulesForType t =
     map fst (filter (\<lambda>r. case snd r of None \<Rightarrow> True | Some ts \<Rightarrow> t \<in> set ts) ROUTED_RULES)"

definition ALL_RULES :: "ValidationRule list" where
  [ev]: "ALL_RULES = map fst ROUTED_RULES"

text \<open>The loop \<open>for (const rule of ALL_RULES) errors.push(...rule(citation))\<close>.\<close>

definition runRules :: "ValidationRule list \<Rightarrow> ParsedCitation \<Rightarrow> ValidationError list" where
  [ev]: "runRules rules citation = concat (map (\<lambda>rule'. rule' citation) rules)"

section \<open>Fixing and reconstruction (auto-fix.ts)\<close>

subsection \<open>\<open>parseInt\<close> and ordinals\<close>

text \<open>
  \<open>parseInt\<close> skips leading white space, reads a sign and then the longest run of digits;
  \<open>None\<close> stands for \<open>NaN\<close>. Without a radix a prefix \<open>0x\<close> selects base 16. The value is
  an exact integer here; the program's is the nearest double, equal to it below \<open>2^53\<close>.
\<close>

definition strip_sign :: "jstring \<Rightarrow> bool \<times> jstring" where
  [ev]: "strip_sign s =
     (case s of
        [] \<Rightarrow> (False, [])
      | c # r \<Rightarrow> if c = 45 then (True, r) else if c = 43 then (False, r) else (False, s))"

definition digit_value :: "jschar \<Rightarrow> nat option" where
  [ev]: "digit_value c =
     (if is_digit c then Some (c - 48)
      else if is_lower c then Some (c - 87)
      else if is_upper c then Some (c - 55)
      else None)"

definition is_digit_of :: "nat \<Rightarrow> jschar \<Rightarrow> bool" where
  [ev]: "is_digit_of radix c = (case digit_value c of None \<Rightarrow> False | Some d \<Rightarrow> d < radix)"

definition digits_value :: "nat \<Rightarrow> jstring \<Rightarrow> nat" where
  [ev]: "digits_value radix ds = foldl (\<lambda>a c. radix * a + (case digit_value c of Some d \<Rightarrow> d | None \<Rightarrow> 0)) 0 ds"

definition parse_digits :: "nat \<Rightarrow> bool \<Rightarrow> jstring \<Rightarrow> int option" where
  [ev]: "parse_digits radix neg s =
     (let ds = takeWhile (is_digit_of radix) s
      in if ds = [] then None
         else Some (if neg then - int (digits_value radix ds) else int (digits_value radix ds)))"

text \<open>\<open>parseInt(s, 10)\<close> and \<open>parseInt(s)\<close>\<close>

definition parseInt10 :: "jstring \<Rightarrow> int option" where
  [ev]: "parseInt10 s = (case strip_sign (dropWhile is_space s) of (neg, r) \<Rightarrow> parse_digits 10 neg r)"

definition parseInt :: "jstring \<Rightarrow> int option" where
  [ev]: "parseInt s =
     (case strip_sign (dropWhile is_space s) of
        (neg, r) \<Rightarrow>
          if startsWith r (js ''0x'') \<or> startsWith r (js ''0X'') then parse_digits 16 neg (drop 2 r)
          else parse_digits 10 neg r)"

definition show_int :: "int \<Rightarrow> jstring" where
  [ev]: "show_int i = (if i < 0 then js ''-'' @ show_nat (nat (- i)) else show_nat (nat i))"

text \<open>The remainder \<open>%\<close> of JavaScript takes the sign of the dividend.\<close>

definition js_rem :: "int \<Rightarrow> int \<Rightarrow> int" where
  [ev]: "js_rem a b = (if a < 0 then - ((- a) mod b) else a mod b)"

definition suffixes :: "jstring list" where
  [ev]: "suffixes = [js ''th'', js ''st'', js ''nd'', js ''rd'']"

definition suffix_at :: "int \<Rightarrow> jstring option" where
  [ev]: "suffix_at i = (if 0 \<le> i \<and> i < 4 then Some (suffixes ! nat i) else None)"

definition toOrdinal :: "jstring \<Rightarrow> jstring" where
  [ev]: "toOrdinal n =
     (case parseInt10 n of
        None \<Rightarrow> n
      | Some num \<Rightarrow>
          (let mod100 = js_rem num 100;
               suffix = (case suffix_at (js_rem (mod100 - 20) 10) of
                           Some x \<Rightarrow> x
                         | None \<Rightarrow> (case suffix_at mod100 of Some x \<Rightarrow> x | None \<Rightarrow> suffixes ! 0))
           in show_int num @ suffix))"

subsection \<open>The tables of the fixer\<close>

text \<open>
  The tables are objects indexed by the rule of a violation. The rules emit no name of a
  property that every object inherits, so a lookup is a lookup in the listed keys.
\<close>

definition FIELD_MAP :: "(jstring \<times> jstring) list" where
  [ev]: "FIELD_MAP =
     [(js ''yearFormat'', js ''year''),
      (js ''titleCase'', js ''title''),
      (js ''doiFormat'', js ''doi''),
      (js ''volumeFormat'', js ''volume''),
      (js ''issueFormat'', js ''issue''),
      (js ''pageFormat'', js ''pages''),
      (js ''journalNameCase'', js ''source''),
      (js ''conferenceNameCase'', js ''source''),
      (js ''publisherLocation'', js ''publisher''),
      (js ''inPrefix'', js ''source''),
      (js ''terminalPeriod'', js ''raw'')]"

definition FIX_DESCRIPTIONS :: "(jstring \<times> (ValidationError \<Rightarrow> jstring)) list" where
  [ev]: \<open>FIX_DESCRIPTIONS =
     [(js ''yearFormat'', \<lambda>e. js ''Corrected year format to "'' @ or_empty (suggested e) @ js ''"''),
      (js ''titleCase'', \<lambda>e. js ''Converted title to sentence case (verify proper nouns)''),
      (js ''doiFormat'', \<lambda>e. js ''Corrected DOI format to "'' @ or_empty (suggested e) @ js ''"''),
      (js ''volumeFormat'', \<lambda>e. js ''Removed "Vol." prefix from volume''),
      (js ''issueFormat'', \<lambda>e. js ''Removed "No." prefix from issue''),
      (js ''pageFormat'', \<lambda>e. if str_includes (message e) (js ''pp.'') then js ''Removed "pp." prefix''
                               else js ''Changed hyphen to en dash''),
      (js ''journalNameCase'', \<lambda>e. js ''Converted journal name to Title Case''),
      (js ''conferenceNameCase'', \<lambda>e. js ''Converted conference/proceedings name to Title Case''),
      (js ''publisherLocation'', \<lambda>e. js ''Removed publisher location (APA 7th change)''),
      (js ''inPrefix'', \<lambda>e. js ''Added "In " prefix to chapter source''),
      (js ''terminalPeriod'', \<lambda>e. js ''Added terminal period'')]\<close>

text \<open>Reading and writing a field of the citation by its name, for the names of \<open>FIELD_MAP\<close>.\<close>

definition get_field :: "jstring \<Rightarrow> ParsedCitation \<Rightarrow> jstring option" where
  [ev]: "get_field f c =
     (if f = js ''year'' then Some (year c)
      else if f = js ''title'' then Some (title c)
      else if f = js ''doi'' then doi c
      else if f = js ''volume'' then volume c
      else if f = js ''issue'' then issue c
      else if f = js ''pages'' then pages c
      else if f = js ''source'' then Some (source c)
      else if f = js ''publisher'' then publisher c
      else if f = js ''raw'' then Some (raw c)
      else None)"

definition set_field :: "jstring \<Rightarrow> jstring \<Rightarrow> ParsedCitation \<Rightarrow> ParsedCitation" where
  [ev]: "set_field f v c =
     (if f = js ''year'' then c\<lparr>year := v\<rparr>
      else if f = js ''title'' then c\<lparr>title := v\<rparr>
      else if f = js ''doi'' then c\<lparr>doi := Some v\<rparr>
      else if f = js ''volume'' then c\<lparr>volume := Some v\<rparr>
      else if f = js ''issue'' then c\<lparr>issue := Some v\<rparr>
      else if f = js ''pages'' then c\<lparr>pages := Some v\<rparr>
      else if f = js ''source'' then c\<lparr>source := v\<rparr>
      else if f = js ''publisher'' then c\<lparr>publisher := Some v\<rparr>
      else if f = js ''raw'' then c\<lparr>raw := v\<rparr>
      else c)"

subsection \<open>Hints for the violations that are not fixed\<close>

definition authorFormatHint :: "ValidationError \<Rightarrow> jstring" where
  [ev]: \<open>authorFormatHint error =
     (if str_includes (message error) (js ''missing initials'')
         \<or> str_includes (message error) (js ''organization name'') then
        js ''Add first and middle initials in format "F. M." after the last name, or provide the full organization name for group authors.''
      else if str_includes (message error) (js ''missing last name'') then
        js ''Provide the author's last name.''
      else js ''Format author as: LastName, F. M.'')\<close>

definition MANUAL_FIX_HINTS :: "(jstring \<times> (ValidationError \<Rightarrow> jstring)) list" where
  [ev]: \<open>MANUAL_FIX_HINTS =
     [(js ''authorFormat'', authorFormatHint),
      (js ''yearFormat'', \<lambda>e. js ''Provide a 4-digit year (YYYY), "n.d." for no date, or "in press" in parentheses.''),
      (js ''doiPresence'', \<lambda>e. js ''Search for the DOI on CrossRef or the publisher's website. If unavailable, this is acceptable.''),
      (js ''doiFormat'', \<lambda>e. js ''DOI should be in format: https://doi.org/10.xxxx/xxxxx''),
      (js ''titleCase'', \<lambda>e. js ''Verify proper nouns are still capitalized correctly in the converted title.''),
      (js ''volumeFormat'', \<lambda>e. js ''Volume should be just the number (e.g., "23" not "Vol. 23").''),
      (js ''issueFormat'', \<lambda>e. js ''Issue should be just the number in parentheses (e.g., "(4)" not "No. 4").''),
      (js ''pageFormat'', \<lambda>e. js ''Use en dash ('' @ [en_dash] @ js '') for page ranges and remove "pp." prefix for journal articles.''),
      (js ''journalNameCase'', \<lambda>e. js ''Journal names should use Title Case (e.g., "Journal of Educational Psychology" not "journal of educational psychology").''),
      (js ''conferenceNameCase'', \<lambda>e. js ''Conference/proceedings names are proper nouns and should use Title Case (e.g., "International Conference on Information Systems").''),
      (js ''chapterEditors'', \<lambda>e. js ''Look up the book on the publisher's website or Google Books to find the editor(s). Format: In F. M. Editor (Ed.), for one editor, or In F. Editor & G. Editor (Eds.), for multiple.''),
      (js ''ampersand'', \<lambda>e. js ''Use ampersand (&) before the last author in reference lists.''),
      (js ''typeMismatch'', \<lambda>e. js ''CrossRef metadata indicates this citation is a different type than detected. Verify the citation format matches the actual publication type.''),
      (js ''publisherRequired'', \<lambda>e. js ''Add the publisher name after the title/edition.''),
      (js ''fullDateRequired'', \<lambda>e. js ''Conference presentations require the full date including month and day(s) (e.g., 2024, March 15).''),
      (js ''editionFormat'', \<lambda>e. js ''Edition should be a number formatted as ordinal (e.g., 2nd ed.).''),
      (js ''bracketType'', \<lambda>e. js ''Add a type descriptor in brackets after the title (e.g., [Paper presentation], [Doctoral dissertation, University Name]).''),
      (js ''conferenceInfo'', \<lambda>e. js ''Add the conference name and location after the bracket descriptor (e.g., Annual Meeting of APA, Washington, DC, United States).''),
      (js ''dissertationInfo'', \<lambda>e. js ''Include the institution name in brackets (e.g., [Doctoral dissertation, Massachusetts Institute of Technology]).''),
      (js ''reportNumber'', \<lambda>e. js ''Include the report number if available (e.g., Report No. 2024-01) in parentheses after the title.''),
      (js ''inPrefix'', \<lambda>e. js ''Chapter source should start with "In " followed by editors and book title.'')]\<close>

definition getManualFixHint :: "ValidationError \<Rightarrow> jstring" where
  [ev]: "getManualFixHint error =
     (case map_of MANUAL_FIX_HINTS (rule error) of
        None \<Rightarrow> message error
      | Some hint' \<Rightarrow> hint' error)"

subsection \<open>Reconstruction\<close>

text \<open>
  The callback of \<open>citation.authors.map((author, index) => ...)\<close>; \<open>None\<close> is \<open>null\<close>.
  \<open>n\<close> is \<open>citation.authors.length\<close>, and \<open>authorText\<close> the last two returns of the callback:
  a group author is just the name, any other author \<open>lastName, initials\<close>.
\<close>

definition authorText :: "Author \<Rightarrow> jstring" where
  [ev]: "authorText author =
     (if Author.isGroupAuthor author = Some True then lastName author
      else lastName author @ js '', '' @ initials author)"

definition authorString :: "nat \<Rightarrow> nat \<Rightarrow> Author \<Rightarrow> jstring option" where
  [ev]: "authorString n index author =
     (if n > 20 \<and> index = 19 then Some (js ''...'')
      else if n > 20 \<and> index > 19 \<and> index < n - 1 then None
      else Some (authorText author))"

text \<open>\<open>.filter(Boolean)\<close> drops \<open>null\<close> and the empty string.\<close>

definition filterBoolean :: "jstring option list \<Rightarrow> jstring list" where
  [ev]: "filterBoolean xs = filter (\<lambda>s. s \<noteq> []) (map or_empty (filter (\<lambda>x. x \<noteq> None) xs))"

text \<open>
  The author list, lines 142 to 168. With no string left the last author is \<open>undefined\<close>,
  which the concatenation prints.
\<close>

definition authorsString :: "Author list \<Rightarrow> jstring" where
  [ev]: "authorsString as =
     (let authorStrings = filterBoolean (map_index (authorString (length as)) as)
      in if length authorStrings = 1 then authorStrings ! 0
         else if length authorStrings = 2 then authorStrings ! 0 @ js '', & '' @ authorStrings ! 1
         else
           (let lastAuthor = (if authorStrings = [] then js ''undefined'' else last authorStrings);
                restAuthors = butlast authorStrings
            in join (js '', '') restAuthors @ js '', & '' @ lastAuthor))"

definition editorsString :: "Author list \<Rightarrow> jstring" where
  [ev]: "editorsString es =
     (let editorStrings = map (\<lambda>e. initials e @ js '' '' @ lastName e) es
      in if length editorStrings = 1 then editorStrings ! 0
         else if length editorStrings = 2 then editorStrings ! 0 @ js '' & '' @ editorStrings ! 1
         else join (js '', '') (butlast editorStrings) @ js '', & '' @ last editorStrings)"

text \<open>The three clauses that fold the title in; each occurs twice in the source.\<close>

definition reportPart :: "ParsedCitation \<Rightarrow> jstring \<Rightarrow> jstring" where
  [ev]: "reportPart citation pub =
     (if truthy (reportNumber citation) then
        js ''*'' @ title citation @ js ''* (Report No. '' @ or_empty (reportNumber citation) @ js '')''
      else js ''*'' @ title citation @ js ''*'')
     @ js ''.''
     @ (if pub \<noteq> [] then js '' '' @ pub @ js ''.'' else [])"

definition confPart :: "ParsedCitation \<Rightarrow> jstring" where
  [ev]: "confPart citation =
     title citation
     @ (if truthy (bracketType citation) then js '' ['' @ or_empty (bracketType citation) @ js '']'' else [])
     @ js ''.''
     @ (if truthy (conferenceName citation) then js '' '' @ or_empty (conferenceName citation) @ js ''.''
        else [])"

definition dissPart :: "ParsedCitation \<Rightarrow> jstring" where
  [ev]: "dissPart citation =
     js ''*'' @ title citation @ js ''*''
     @ (if truthy (bracketType citation) then js '' ['' @ or_empty (bracketType citation) @ js '']'' else [])
     @ js ''.''
     @ (if truthy (databaseName citation) then js '' '' @ or_empty (databaseName citation) @ js ''.''
        else [])"

text \<open>
  \<open>const titleIdx = parts.findIndex(p => p === citation.title + '.');\<close>
  \<open>if (titleIdx >= 0) parts.splice(titleIdx, 1);\<close> removes the first such part.
\<close>

definition removeTitle :: "ParsedCitation \<Rightarrow> jstring list \<Rightarrow> jstring list" where
  [ev]: "removeTitle citation parts = remove1 (title citation @ js ''.'') parts"

definition journalPart :: "ParsedCitation \<Rightarrow> jstring" where
  [ev]: "journalPart citation =
     js ''*'' @ source citation @ js ''*''
     @ (if truthy (volume citation) then
          (if truthy (issue citation) then
             js '', *'' @ or_empty (volume citation) @ js ''*('' @ or_empty (issue citation) @ js '')''
           else js '', *'' @ or_empty (volume citation) @ js ''*'')
        else [])
     @ (if truthy (pages citation) then js '', '' @ or_empty (pages citation) else [])
     @ js ''.''"

definition chapterPart :: "ParsedCitation \<Rightarrow> jstring" where
  [ev]: "chapterPart citation =
     (let bookTitle = (if startsWith (source citation) (js ''In '') then drop 3 (source citation)
                       else source citation)
      in js ''In ''
         @ (case editors citation of
              Some (e # es) \<Rightarrow>
                editorsString (e # es) @ js '' (''
                @ (if length (e # es) = 1 then js ''Ed.'' else js ''Eds.'') @ js ''), ''
            | _ \<Rightarrow> js ''[Editor, F. M.] (Ed.), '')
         @ js ''*'' @ bookTitle @ js ''*''
         @ (if truthy (edition citation) \<or> truthy (pages citation) then
              (let parenParts =
                 (if truthy (edition citation) then [toOrdinal (or_empty (edition citation)) @ js '' ed.'']
                  else [])
                 @ (if truthy (pages citation) then [js ''pp. '' @ or_empty (pages citation)] else [])
               in js '' ('' @ join (js '', '') parenParts @ js '')'')
            else [])
         @ js ''.''
         @ (if truthy (publisher citation) then js '' '' @ or_empty (publisher citation) @ js ''.''
            else []))"

definition bookPart :: "ParsedCitation \<Rightarrow> jstring" where
  [ev]: "bookPart citation =
     js ''*'' @ source citation @ js ''*''
     @ (if truthy (edition citation) then js '' ('' @ toOrdinal (or_empty (edition citation)) @ js '' ed.)''
        else [])
     @ js ''.''
     @ (if truthy (publisher citation) then js '' '' @ or_empty (publisher citation) @ js ''.''
        else [])"

definition reconstructParts :: "ParsedCitation \<Rightarrow> jstring list" where
  [ev]: "reconstructParts citation =
     (let parts0 = (if length (authors citation) > 0 then [authorsString (authors citation)] else []);
          parts1 = parts0 @
            (if year citation \<noteq> [] then
               (if truthy (fullDate citation) then [js ''('' @ or_empty (fullDate citation) @ js '').'']
                else if truthy (yearSuffix citation) then
                  [js ''('' @ year citation @ or_empty (yearSuffix citation) @ js '').'']
                else [js ''('' @ year citation @ js '').''])
             else []);
          parts2 = parts1 @ (if title citation \<noteq> [] then [title citation @ js ''.''] else []);
          parts3 =
            (if source citation = [] \<and> type citation \<in> set [Report, Conference, Dissertation] then
               (if type citation = Report then
                  removeTitle citation parts2 @ [reportPart citation (or_empty (publisher citation))]
                else if type citation = Conference then
                  removeTitle citation parts2 @ [confPart citation]
                else removeTitle citation parts2 @ [dissPart citation])
             else parts2);
          parts4 =
            (if source citation \<noteq> [] then
               (if type citation = Journal then parts3 @ [journalPart citation]
                else if type citation = Chapter then parts3 @ [chapterPart citation]
                else if type citation = Book then parts3 @ [bookPart citation]
                else if type citation = Report then
                  removeTitle citation parts3
                  @ [reportPart citation
                       (if truthy (publisher citation) then or_empty (publisher citation)
                        else source citation)]
                else if type citation = Conference then removeTitle citation parts3 @ [confPart citation]
                else if type citation = Dissertation then removeTitle citation parts3 @ [dissPart citation]
                else parts3 @ [source citation])
             else parts3)
      in parts4
         @ (if truthy (doi citation) then [or_empty (doi citation)]
            else if truthy (url citation) then [or_empty (url citation)]
            else []))"

definition reconstructCitation :: "ParsedCitation \<Rightarrow> jstring" where
  [ev]: "reconstructCitation citation =
     trim (rx_replace_all (rplus ws) (js '' '') (join (js '' '') (reconstructParts citation)))"

subsection \<open>Applying the fixes\<close>

text \<open>\<open>/Author (\d+)/\<close>\<close>

definition authorIndexPattern :: rx where
  [ev]: "authorIndexPattern = seqs [lit ''Author '', Grp 1 (rplus digit)]"

text \<open>The state of the loop: the working copy, the applied fixes and the hints.\<close>

type_synonym fix_state = "ParsedCitation \<times> AutoFix list \<times> ManualFix list"

text \<open>The body of \<open>for (const error of errors)\<close>.\<close>

definition applyFix :: "ValidationError \<Rightarrow> fix_state \<Rightarrow> fix_state" where
  [ev]: \<open>applyFix error st =
     (case st of (fixedCitation, autoFixes, manualFixes) \<Rightarrow>
      if \<not> autoFixable error then
        (fixedCitation, autoFixes,
         manualFixes @ [\<lparr>ManualFix.rule = rule error, ManualFix.field = field error,
                          ManualFix.message = message error, hint = getManualFixHint error\<rparr>])
      else if rule error = js ''authorFormat'' then
        (if truthy (suggested error) \<and> field error = js ''authors'' then
           (let authorIndex =
              (case parseInt (case rx_match authorIndexPattern (message error) of
                                Some m \<Rightarrow> (case m_group (message error) m 1 of
                                              Some d \<Rightarrow> if d = [] then js ''0'' else d
                                            | None \<Rightarrow> js ''0'')
                              | None \<Rightarrow> js ''0'') of
                 Some i \<Rightarrow> i - 1
               | None \<Rightarrow> - 1)
            in if authorIndex \<ge> 0 \<and> authorIndex < int (length (authors fixedCitation)) then
                 (let oldInitials = initials (authors fixedCitation ! nat authorIndex)
                  in (fixedCitation\<lparr>authors :=
                        (authors fixedCitation)[nat authorIndex :=
                          (authors fixedCitation ! nat authorIndex)\<lparr>initials := or_empty (suggested error)\<rparr>]\<rparr>,
                      autoFixes @ [\<lparr>AutoFix.rule = js ''authorFormat'', AutoFix.field = js ''authors'',
                                     AutoFix.original = oldInitials, fixed = or_empty (suggested error),
                                     description = js ''Corrected initials format to "''
                                       @ or_empty (suggested error) @ js ''"''\<rparr>],
                      manualFixes))
               else st)
         else st)
      else if rule error = js ''ampersand'' then
        (fixedCitation,
         autoFixes @ [\<lparr>AutoFix.rule = js ''ampersand'', AutoFix.field = js ''authors'',
                        AutoFix.original = js ''and'', fixed = js ''&'',
                        description = js ''Changed "and" to "&" before last author''\<rparr>],
         manualFixes)
      else
        (case map_of FIELD_MAP (rule error) of
           Some field' \<Rightarrow>
             if truthy (suggested error) then
               (let original' = or_empty (get_field field' fixedCitation)
                in (set_field field' (or_empty (suggested error)) fixedCitation,
                    autoFixes @ [\<lparr>AutoFix.rule = rule error, AutoFix.field = field',
                                   AutoFix.original = original', fixed = or_empty (suggested error),
                                   description =
                                     (case map_of FIX_DESCRIPTIONS (rule error) of
                                        Some d \<Rightarrow> d error
                                      | None \<Rightarrow> message error)\<rparr>],
                    manualFixes))
             else st
         | None \<Rightarrow> st))\<close>

fun applyFixes :: "ValidationError list \<Rightarrow> fix_state \<Rightarrow> fix_state" where
  "applyFixes [] st = st"
| "applyFixes (error # errors) st = applyFixes errors (applyFix error st)"

text \<open>
  \<open>applyAutoFixes\<close> returns the reconstructed string, the fixes and the hints. The working
  copy it reconstructs from is local to it; \<open>fixedRecord\<close> names it.
\<close>

definition fixedRecord :: "ParsedCitation \<Rightarrow> ValidationError list \<Rightarrow> ParsedCitation" where
  [ev]: "fixedRecord citation errors = fst (applyFixes errors (citation, [], []))"

definition applyAutoFixes ::
  "ParsedCitation \<Rightarrow> ValidationError list \<Rightarrow> jstring \<times> AutoFix list \<times> ManualFix list" where
  [ev]: "applyAutoFixes citation errors =
     (case applyFixes errors (citation, [], []) of
        (fixedCitation, autoFixes, manualFixes) \<Rightarrow>
          (reconstructCitation fixedCitation, autoFixes, manualFixes))"

subsection \<open>The score\<close>

text \<open>
  The score is a double in the program. Every value it takes is a multiple of one half,
  which a double holds exactly, so the rationals compute the same. \<open>Math.round\<close> rounds a
  half up.
\<close>

definition js_round :: "rat \<Rightarrow> int" where
  [ev]: "js_round x = \<lfloor>x + 1 / 2\<rfloor>"

fun deduct :: "ValidationError list \<Rightarrow> rat \<Rightarrow> rat" where
  "deduct [] score = score"
| "deduct (error # errors) score =
     deduct errors
       (case severity error of
          Error \<Rightarrow> score - 15
        | Warning \<Rightarrow> score - 10
        | Info \<Rightarrow> score - 5)"

fun addBack :: "ValidationError list \<Rightarrow> AutoFix list \<Rightarrow> rat \<Rightarrow> rat" where
  "addBack errors [] score = score"
| "addBack errors (fix # autoFixes) score =
     addBack errors autoFixes
       (case find (\<lambda>e. rule e = AutoFix.rule fix \<and> field e = AutoFix.field fix) errors of
          None \<Rightarrow> score
        | Some originalError \<Rightarrow>
            (case severity originalError of
               Error \<Rightarrow> score + 15 / 2
             | Warning \<Rightarrow> score + 5
             | Info \<Rightarrow> score + 5 / 2))"

text \<open>The severity of the violation a fix comes from: the first with its rule and field.\<close>

definition origin_severity :: "ValidationError list \<Rightarrow> AutoFix \<Rightarrow> Severity option" where
  "origin_severity vs fix =
     map_option severity (find (\<lambda>e. rule e = AutoFix.rule fix \<and> field e = AutoFix.field fix) vs)"

definition calculateScore :: "ValidationError list \<Rightarrow> AutoFix list \<Rightarrow> int" where
  [ev]: "calculateScore errors autoFixes =
     max 0 (min 100 (js_round (addBack errors autoFixes (deduct errors 100))))"

section \<open>The parser\<close>

text \<open>The default citation \<open>parseCitation\<close> starts from.\<close>

definition defaultCitation :: "jstring \<Rightarrow> ParsedCitation" where
  [ev]: "defaultCitation raw' =
     \<lparr>raw = raw', authors = [], year = [], title = [], source = [],
      volume = None, issue = None, pages = None, doi = None, url = None,
      publisher = None, editors = None, edition = None, type = Unknown,
      fullDate = None, yearSuffix = None, reportNumber = None, bracketType = None,
      conferenceName = None, institution = None, databaseName = None, isGroupAuthor = None\<rparr>"

subsection \<open>Authors\<close>

text \<open>\<open>normalizeInitials\<close>: \<open>initials.match(/[A-Z]/g) || []\<close>, each letter with a period.\<close>

definition normalizeInitials :: "jstring \<Rightarrow> jstring" where
  [ev]: "normalizeInitials initials' =
     (let letters = rx_match_all (Ch is_upper) initials'
      in join (js '' '') (map (\<lambda>l. l @ js ''.'') letters))"

text \<open>\<open>[A-Za-z\u00C0-\u00D6\u00D8-\u00F6\u00F8-\u024F'\-]\<close>\<close>

definition is_name_char :: "jschar \<Rightarrow> bool" where
  [ev]: "is_name_char c =
     (is_upper c \<or> is_lower c \<or> (192 \<le> c \<and> c \<le> 214) \<or> (216 \<le> c \<and> c \<le> 246)
      \<or> (248 \<le> c \<and> c \<le> 591) \<or> c = 39 \<or> c = 45)"

definition nameChars :: rx where
  [ev]: "nameChars = rplus (Ch is_name_char)"

text \<open>\<open>(?:\s+(?:van|de|von|la|del|di|el|al|bin|ibn)\s+\<close> nameChars \<open>)?\<close>\<close>

definition prefixes :: rx where
  [ev]: "prefixes =
     ropt (seqs [rplus ws,
       alts [lit ''van'', lit ''de'', lit ''von'', lit ''la'', lit ''del'', lit ''di'',
             lit ''el'', lit ''al'', lit ''bin'', lit ''ibn''],
       rplus ws, nameChars])"

text \<open>\<open>(\<close> nameChars prefixes \<open>),\s*((?:[A-Z]\.\s*)+)\<close>, with the flag \<open>g\<close>\<close>

definition authorRegex :: rx where
  [ev]: "authorRegex =
     seqs [Grp 1 (Seq nameChars prefixes), chr CHR '','', rstar ws,
           Grp 2 (rplus (seqs [Ch is_upper, chr CHR ''.'', rstar ws]))]"

text \<open>\<open>/[\u2018\u2019\u201A\u201B\u0060\u00B4]/g\<close>\<close>

definition quoteChars :: rx where
  [ev]: "quoteChars = Ch (\<lambda>c. c = 8216 \<or> c = 8217 \<or> c = 8218 \<or> c = 8219 \<or> c = 96 \<or> c = 180)"

text \<open>\<open>/,?\s*(?:et al\.|\.\.\.)\s*$/\<close> and \<open>/\s*&\s*/\<close>\<close>

definition etAlPattern :: rx where
  [ev]: "etAlPattern =
     seqs [ropt (chr CHR '',''), rstar ws, Alt (lit ''et al.'') (lit ''...''), rstar ws, Eol]"

definition ampersandSplit :: rx where
  [ev]: "ampersandSplit = seqs [rstar ws, chr CHR ''&'', rstar ws]"

text \<open>\<open>/\.\s*$/\<close> and \<open>/\.$/\<close>\<close>

definition periodSpaceAtEnd :: rx where
  [ev]: "periodSpaceAtEnd = seqs [chr CHR ''.'', rstar ws, Eol]"

definition periodAtEnd :: rx where
  [ev]: "periodAtEnd = seqs [chr CHR ''.'', Eol]"

text \<open>The author of one match of \<open>authorRegex\<close> in \<open>part\<close>.\<close>

definition authorOfMatch :: "jstring \<Rightarrow> rmatch \<Rightarrow> Author" where
  [ev]: "authorOfMatch part m =
     (let lastName' = trim (or_empty (m_group part m 1));
          initials' = trim (or_empty (m_group part m 2))
      in \<lparr>lastName = lastName', initials = normalizeInitials initials',
          Author.isGroupAuthor = None\<rparr>)"

text \<open>
  The loop over the parts, with the loop over the matches in each. A loop over the matches
  that does not end leaves the whole without a result.
\<close>

fun authorsOfParts :: "jstring list \<Rightarrow> Author list option" where
  "authorsOfParts [] = Some []"
| "authorsOfParts (part # parts) =
     (case exec_loop authorRegex 0 part of
        None \<Rightarrow> None
      | Some ms \<Rightarrow>
          (case authorsOfParts parts of
             None \<Rightarrow> None
           | Some as \<Rightarrow> Some (map (authorOfMatch part) ms @ as)))"

definition parseAuthors :: "jstring \<Rightarrow> Author list option" where
  [ev]: "parseAuthors authorBlock =
     (let block0 = rx_replace_all quoteChars [39] (trim authorBlock);
          block = (if str_includes block0 (js ''et al.'') \<or> str_includes block0 (js ''...'')
                   then rx_replace etAlPattern [] block0 else block0);
          parts = rx_split ampersandSplit False block
      in case authorsOfParts parts of
           None \<Rightarrow> None
         | Some authors' \<Rightarrow>
             if length authors' = 0 \<and> length block > 0 then
               (let groupName = trim (rx_replace periodSpaceAtEnd [] block)
                in if length groupName > 0 then
                     Some [\<lparr>lastName = groupName, initials = [], Author.isGroupAuthor = Some True\<rparr>]
                   else Some authors')
             else Some authors')"

subsection \<open>The source patterns\<close>

text \<open>\<open>[\d\<close>en dash\<open>-]\<close>\<close>

definition is_page_char :: "jschar \<Rightarrow> bool" where
  [ev]: "is_page_char c = (is_digit c \<or> c = en_dash \<or> c = 45)"

text \<open>\<open>m[i].trim()\<close> and \<open>m[i].trim().replace(/\.$/, '').split(',')[0].trim()\<close>\<close>

definition grp_trim :: "jstring \<Rightarrow> rmatch \<Rightarrow> nat \<Rightarrow> jstring" where
  [ev]: "grp_trim s m i = trim (or_empty (m_group s m i))"

definition publisherOf :: "jstring \<Rightarrow> jstring" where
  [ev]: "publisherOf g =
     (case split_chr 44 (rx_replace periodAtEnd [] (trim g)) of
        [] \<Rightarrow> []
      | x # xs \<Rightarrow> trim x)"

type_synonym SourcePattern = "rx \<times> (jstring \<Rightarrow> rmatch \<Rightarrow> ParsedCitation \<Rightarrow> ParsedCitation)"

text \<open>\<open>/^In\s+(.+?)\s*\((?:Eds?\.|Trans\.)\),?\s*(.+?)\s*\(pp\.\s*([\d\<close>en dash\<open>-]+)\)\.\s*(.+)$/i\<close>\<close>

definition editedChapterPattern :: SourcePattern where
  [ev]: "editedChapterPattern =
     (seqs [Bol, lit_ci ''In'', rplus ws, Grp 1 (rlazy dot), rstar ws, chr CHR ''('',
        Alt (seqs [lit_ci ''Ed'', ropt (chr_ci CHR ''s''), chr CHR ''.'']) (lit_ci ''Trans.''),
        chr CHR '')'', ropt (chr CHR '',''), rstar ws, Grp 2 (rlazy dot), rstar ws,
        chr CHR ''('', lit_ci ''pp.'', rstar ws, Grp 3 (rplus (Ch is_page_char)), chr CHR '')'',
        chr CHR ''.'', rstar ws, Grp 4 (rplus dot), Eol],
      \<lambda>s m c. c\<lparr>source := js ''In '' @ or_empty (m_group s m 1) @ js '' (Ed.), '' @ grp_trim s m 2,
                 pages := Some (grp_trim s m 3),
                 publisher := Some (publisherOf (or_empty (m_group s m 4))),
                 type := Chapter\<rparr>)"

text \<open>\<open>/^In\s+(.+?)\s*\(pp\.\s*([\d\<close>en dash\<open>-]+)\)\.\s*(.+)$/i\<close>\<close>

definition chapterPublisherPattern :: SourcePattern where
  [ev]: "chapterPublisherPattern =
     (seqs [Bol, lit_ci ''In'', rplus ws, Grp 1 (rlazy dot), rstar ws,
        chr CHR ''('', lit_ci ''pp.'', rstar ws, Grp 2 (rplus (Ch is_page_char)), chr CHR '')'',
        chr CHR ''.'', rstar ws, Grp 3 (rplus dot), Eol],
      \<lambda>s m c. c\<lparr>source := js ''In '' @ grp_trim s m 1,
                 pages := Some (grp_trim s m 2),
                 publisher := Some (publisherOf (or_empty (m_group s m 3))),
                 type := Chapter\<rparr>)"

text \<open>\<open>/^In\s+(.+?)\s*\(pp\.\s*([\d\<close>en dash\<open>-]+)\)/i\<close>\<close>

definition chapterPattern :: SourcePattern where
  [ev]: "chapterPattern =
     (seqs [Bol, lit_ci ''In'', rplus ws, Grp 1 (rlazy dot), rstar ws,
        chr CHR ''('', lit_ci ''pp.'', rstar ws, Grp 2 (rplus (Ch is_page_char)), chr CHR '')''],
      \<lambda>s m c. c\<lparr>source := js ''In '' @ grp_trim s m 1,
                 pages := Some (grp_trim s m 2),
                 type := Chapter\<rparr>)"

text \<open>\<open>m[i] ? 'pp. ' + m[i] : undefined\<close>\<close>

definition ppPages :: "jstring option \<Rightarrow> jstring option" where
  [ev]: "ppPages g = (if truthy g then Some (js ''pp. '' @ or_empty g) else None)"

text \<open>\<open>/^(.+?),?\s+Vol\.?\s*(\d+),?\s*No\.?\s*(\d+),?\s*pp\.?\s*([\d\<close>en dash\<open>-]+)?/i\<close>\<close>

definition volNoPattern :: SourcePattern where
  [ev]: "volNoPattern =
     (seqs [Bol, Grp 1 (rlazy dot), ropt (chr CHR '',''), rplus ws,
        lit_ci ''Vol'', ropt (chr CHR ''.''), rstar ws, Grp 2 (rplus digit), ropt (chr CHR '',''),
        rstar ws, lit_ci ''No'', ropt (chr CHR ''.''), rstar ws, Grp 3 (rplus digit),
        ropt (chr CHR '',''), rstar ws, lit_ci ''pp'', ropt (chr CHR ''.''), rstar ws,
        ropt (Grp 4 (rplus (Ch is_page_char)))],
      \<lambda>s m c. c\<lparr>source := grp_trim s m 1,
                 volume := Some (js ''Vol. '' @ or_empty (m_group s m 2)),
                 issue := Some (js ''No. '' @ or_empty (m_group s m 3)),
                 pages := ppPages (m_group s m 4),
                 type := Journal\<rparr>)"

text \<open>\<open>/^(.+?),?\s+Vol\.?\s*(\d+)\((\d+)\),?\s*(?:pp\.?\s*)?([\d\<close>en dash\<open>-]+)?/i\<close>\<close>

definition volIssuePattern :: SourcePattern where
  [ev]: "volIssuePattern =
     (seqs [Bol, Grp 1 (rlazy dot), ropt (chr CHR '',''), rplus ws,
        lit_ci ''Vol'', ropt (chr CHR ''.''), rstar ws, Grp 2 (rplus digit),
        chr CHR ''('', Grp 3 (rplus digit), chr CHR '')'', ropt (chr CHR '',''), rstar ws,
        ropt (seqs [lit_ci ''pp'', ropt (chr CHR ''.''), rstar ws]),
        ropt (Grp 4 (rplus (Ch is_page_char)))],
      \<lambda>s m c. c\<lparr>source := grp_trim s m 1,
                 volume := Some (js ''Vol. '' @ or_empty (m_group s m 2)),
                 issue := m_group s m 3,
                 pages := ppPages (m_group s m 4),
                 type := Journal\<rparr>)"

text \<open>\<open>/^(.+?),?\s+Vol\.?\s*(\d+),?\s*pp\.?\s*([\d\<close>en dash\<open>-]+)?/i\<close>\<close>

definition volPagesPattern :: SourcePattern where
  [ev]: "volPagesPattern =
     (seqs [Bol, Grp 1 (rlazy dot), ropt (chr CHR '',''), rplus ws,
        lit_ci ''Vol'', ropt (chr CHR ''.''), rstar ws, Grp 2 (rplus digit), ropt (chr CHR '',''),
        rstar ws, lit_ci ''pp'', ropt (chr CHR ''.''), rstar ws,
        ropt (Grp 3 (rplus (Ch is_page_char)))],
      \<lambda>s m c. c\<lparr>source := grp_trim s m 1,
                 volume := Some (js ''Vol. '' @ or_empty (m_group s m 2)),
                 pages := ppPages (m_group s m 3),
                 type := Journal\<rparr>)"

text \<open>\<open>/^(.+?),?\s+(\d+)\((\d+)\),?\s*([\d\<close>en dash\<open>-]+)?/\<close>\<close>

definition journalIssuePattern :: SourcePattern where
  [ev]: "journalIssuePattern =
     (seqs [Bol, Grp 1 (rlazy dot), ropt (chr CHR '',''), rplus ws, Grp 2 (rplus digit),
        chr CHR ''('', Grp 3 (rplus digit), chr CHR '')'', ropt (chr CHR '',''), rstar ws,
        ropt (Grp 4 (rplus (Ch is_page_char)))],
      \<lambda>s m c. c\<lparr>source := grp_trim s m 1,
                 volume := m_group s m 2,
                 issue := m_group s m 3,
                 pages := m_group s m 4,
                 type := Journal\<rparr>)"

text \<open>\<open>/^(.+?),?\s+(\d+),?\s*([\d\<close>en dash\<open>-]+)?/\<close>\<close>

definition journalPattern :: SourcePattern where
  [ev]: "journalPattern =
     (seqs [Bol, Grp 1 (rlazy dot), ropt (chr CHR '',''), rplus ws, Grp 2 (rplus digit),
        ropt (chr CHR '',''), rstar ws, ropt (Grp 3 (rplus (Ch is_page_char)))],
      \<lambda>s m c. c\<lparr>source := grp_trim s m 1,
                 volume := m_group s m 2,
                 pages := m_group s m 3,
                 type := Journal\<rparr>)"

definition SOURCE_PATTERNS :: "SourcePattern list" where
  [ev]: "SOURCE_PATTERNS =
     [editedChapterPattern, chapterPublisherPattern, chapterPattern, volNoPattern,
      volIssuePattern, volPagesPattern, journalIssuePattern, journalPattern]"

text \<open>The loop over the patterns: the first that matches extracts, and the function returns.\<close>

fun tryPatterns :: "SourcePattern list \<Rightarrow> jstring \<Rightarrow> ParsedCitation \<Rightarrow> ParsedCitation option" where
  "tryPatterns [] sourceSegment citation = None"
| "tryPatterns (pattern # patterns) sourceSegment citation =
     (case rx_match (fst pattern) sourceSegment of
        Some m \<Rightarrow> Some ((snd pattern) sourceSegment m citation)
      | None \<Rightarrow> tryPatterns patterns sourceSegment citation)"

subsection \<open>The text after the year\<close>

text \<open>\<open>/^\.\s*/\<close>\<close>

definition leadingPeriod :: rx where
  [ev]: "leadingPeriod = seqs [Bol, chr CHR ''.'', rstar ws]"

text \<open>\<open>/https?:\/\/(?:dx\.)?doi\.org\/([\w./-]+)/i\<close>\<close>

definition doiUrlPattern :: rx where
  [ev]: "doiUrlPattern =
     seqs [lit_ci ''http'', ropt (chr_ci CHR ''s''), lit ''://'', ropt (lit_ci ''dx.''),
           lit_ci ''doi.org/'',
           Grp 1 (rplus (Ch (\<lambda>c. is_word c \<or> c = 46 \<or> c = 47 \<or> c = 45)))]"

text \<open>\<open>/doi:\s*(10\.\S+)/i\<close>\<close>

definition doiColonPattern :: rx where
  [ev]: "doiColonPattern =
     seqs [lit_ci ''doi:'', rstar ws, Grp 1 (Seq (lit ''10.'') (rplus (Ch (\<lambda>c. \<not> is_space c))))]"

text \<open>\<open>/(https?:\/\/[^\s]+)/i\<close>\<close>

definition urlPattern :: rx where
  [ev]: "urlPattern =
     Grp 1 (seqs [lit_ci ''http'', ropt (chr_ci CHR ''s''), lit ''://'',
                  rplus (Ch (\<lambda>c. \<not> is_space c))])"

text \<open>\<open>/\((\d+)(?:st|nd|rd|th)\s+ed\.\)/i\<close>\<close>

definition editionPattern :: rx where
  [ev]: "editionPattern =
     seqs [chr CHR ''('', Grp 1 (rplus digit),
           alts [lit_ci ''st'', lit_ci ''nd'', lit_ci ''rd'', lit_ci ''th''],
           rplus ws, lit_ci ''ed.'', chr CHR '')'']"

text \<open>\<open>/\[(.+?)\]/\<close>, the two keyword tests and \<open>/,\s*(.+)$/\<close>\<close>

definition bracketPattern :: rx where
  [ev]: "bracketPattern = seqs [chr CHR ''['', Grp 1 (rlazy dot), chr CHR '']'']"

definition conferenceKeywords :: rx where
  [ev]: "conferenceKeywords =
     alts [lit ''paper presentation'', lit ''poster session'', lit ''symposium'',
           lit ''conference session'']"

definition dissertationKeywords :: rx where
  [ev]: "dissertationKeywords =
     Alt (lit ''doctoral dissertation'')
         (seqs [lit ''master'', ropt (Ch (\<lambda>c. c = 39)), lit ''s thesis''])"

definition institutionPattern :: rx where
  [ev]: "institutionPattern = seqs [chr CHR '','', rstar ws, Grp 1 (rplus dot), Eol]"

text \<open>\<open>/\(Report No\.\s*([^)]+)\)/i\<close>\<close>

definition reportNoPattern :: rx where
  [ev]: "reportNoPattern =
     seqs [chr CHR ''('', lit_ci ''Report No.'', rstar ws, Grp 1 (rplus (Ch (\<lambda>c. c \<noteq> 41))),
           chr CHR '')'']"

text \<open>
  \<open>/Press|Publisher|Books/\<close>,
  \<open>/^(.+?)\s*\(\d+(?:st|nd|rd|th)\s+ed\.\)\.\s*(.+?)\.?\s*$/i\<close>,
  \<open>/^(.+?)\.?\s*$/\<close> and \<open>/^(.+?)\.\s*(.+?)\.?\s*$/\<close>
\<close>

definition bookKeywords :: rx where
  [ev]: "bookKeywords = alts [lit ''Press'', lit ''Publisher'', lit ''Books'']"

definition editionFullPattern :: rx where
  [ev]: "editionFullPattern =
     seqs [Bol, Grp 1 (rlazy dot), rstar ws, chr CHR ''('', rplus digit,
           alts [lit_ci ''st'', lit_ci ''nd'', lit_ci ''rd'', lit_ci ''th''],
           rplus ws, lit_ci ''ed.'', chr CHR '')'', chr CHR ''.'', rstar ws, Grp 2 (rlazy dot),
           ropt (chr CHR ''.''), rstar ws, Eol]"

definition publisherOnlyPattern :: rx where
  [ev]: "publisherOnlyPattern = seqs [Bol, Grp 1 (rlazy dot), ropt (chr CHR ''.''), rstar ws, Eol]"

definition bookPublisherPattern :: rx where
  [ev]: "bookPublisherPattern =
     seqs [Bol, Grp 1 (rlazy dot), chr CHR ''.'', rstar ws, Grp 2 (rlazy dot),
           ropt (chr CHR ''.''), rstar ws, Eol]"

text \<open>
  \<open>splitByPeriods\<close>: the loop over the characters, with the segment in progress and the
  depth of the parentheses, which may go below zero.
\<close>

fun splitLoop :: "jstring \<Rightarrow> jstring \<Rightarrow> int \<Rightarrow> jstring list" where
  "splitLoop [] current parenDepth = (if trim current \<noteq> [] then [trim current] else [])"
| "splitLoop [c] current parenDepth =
     (if c = 40 then splitLoop [] (current @ [c]) (parenDepth + 1)
      else if c = 41 then splitLoop [] (current @ [c]) (parenDepth - 1)
      else splitLoop [] (current @ [c]) parenDepth)"
| "splitLoop (c # d # s) current parenDepth =
     (if c = 40 then splitLoop (d # s) (current @ [c]) (parenDepth + 1)
      else if c = 41 then splitLoop (d # s) (current @ [c]) (parenDepth - 1)
      else if c = 46 \<and> parenDepth = 0 \<and> d = 32 then trim current # splitLoop s [] parenDepth
      else splitLoop (d # s) (current @ [c]) parenDepth)"

definition splitByPeriods :: "jstring \<Rightarrow> jstring list" where
  [ev]: "splitByPeriods text = splitLoop text [] 0"

text \<open>
  The steps of \<open>parseRemainingElements\<close> that take a match out of the remaining text. Each
  maps the remaining text and the citation to the new ones.
\<close>

type_synonym remaining_state = "jstring \<times> ParsedCitation"

definition extractDoi :: "remaining_state \<Rightarrow> remaining_state" where
  [ev]: "extractDoi rc =
     (case rc of (remaining, citation) \<Rightarrow>
        (case rx_match doiUrlPattern remaining of
           Some doiUrlMatch \<Rightarrow>
             (trim (replace_str remaining (m_text remaining doiUrlMatch) []),
              citation\<lparr>doi := m_group remaining doiUrlMatch 1,
                        url := Some (m_text remaining doiUrlMatch)\<rparr>)
         | None \<Rightarrow>
             (case rx_match doiColonPattern remaining of
                Some doiPrefixMatch \<Rightarrow>
                  (trim (replace_str remaining (m_text remaining doiPrefixMatch) []),
                   citation\<lparr>doi := Some (rx_replace periodAtEnd []
                                       (or_empty (m_group remaining doiPrefixMatch 1)))\<rparr>)
              | None \<Rightarrow> rc)))"

definition extractUrl :: "remaining_state \<Rightarrow> remaining_state" where
  [ev]: "extractUrl rc =
     (case rc of (remaining, citation) \<Rightarrow>
        if \<not> truthy (doi citation) then
          (case rx_match urlPattern remaining of
             Some urlMatch \<Rightarrow>
               (trim (replace_str remaining (m_text remaining urlMatch) []),
                citation\<lparr>url := m_group remaining urlMatch 1\<rparr>)
           | None \<Rightarrow> rc)
        else rc)"

definition extractEdition :: "remaining_state \<Rightarrow> remaining_state" where
  [ev]: "extractEdition rc =
     (case rc of (remaining, citation) \<Rightarrow>
        (case rx_match editionPattern remaining of
           Some editionPreMatch \<Rightarrow>
             (trim (replace_str remaining (m_text remaining editionPreMatch) []),
              citation\<lparr>edition := m_group remaining editionPreMatch 1\<rparr>)
         | None \<Rightarrow> rc))"

definition extractBracket :: "remaining_state \<Rightarrow> remaining_state" where
  [ev]: "extractBracket rc =
     (case rc of (remaining, citation) \<Rightarrow>
        (case rx_match bracketPattern remaining of
           Some bracketMatch \<Rightarrow>
             (let bracket = or_empty (m_group remaining bracketMatch 1);
                  bracketLower = toLowerCase bracket;
                  c1 = citation\<lparr>bracketType := Some bracket\<rparr>;
                  c2 = (if rx_test conferenceKeywords bracketLower then c1\<lparr>type := Conference\<rparr>
                        else c1);
                  c3 = (if rx_test dissertationKeywords bracketLower then
                          (case rx_match institutionPattern bracket of
                             Some instMatch \<Rightarrow>
                               c2\<lparr>type := Dissertation,
                                  institution := Some (grp_trim bracket instMatch 1)\<rparr>
                           | None \<Rightarrow> c2\<lparr>type := Dissertation\<rparr>)
                        else c2)
              in (trim (replace_str remaining (m_text remaining bracketMatch) []), c3))
         | None \<Rightarrow> rc))"

definition extractReportNo :: "remaining_state \<Rightarrow> remaining_state" where
  [ev]: "extractReportNo rc =
     (case rc of (remaining, citation) \<Rightarrow>
        (case rx_match reportNoPattern remaining of
           Some reportNoMatch \<Rightarrow>
             (trim (replace_str remaining (m_text remaining reportNoMatch) []),
              (if type citation = Unknown then
                 citation\<lparr>reportNumber := Some (grp_trim remaining reportNoMatch 1), type := Report\<rparr>
               else citation\<lparr>reportNumber := Some (grp_trim remaining reportNoMatch 1)\<rparr>))
         | None \<Rightarrow> rc))"

text \<open>The final fallback, reached when no branch has returned.\<close>

definition finalFallback :: "ParsedCitation \<Rightarrow> ParsedCitation" where
  [ev]: "finalFallback citation =
     (if type citation = Unknown \<and> truthy (url citation) \<and> \<not> truthy (doi citation)
      then citation\<lparr>type := Web\<rparr> else citation)"

text \<open>\<open>sourceSegment.replace(/^\.\s*/, '').replace(/\.\s*$/, '').trim()\<close>\<close>

definition cleanName :: "jstring \<Rightarrow> jstring" where
  [ev]: "cleanName sourceSegment =
     trim (rx_replace periodSpaceAtEnd [] (rx_replace leadingPeriod [] sourceSegment))"

text \<open>Book detection and the default, after no source pattern has matched.\<close>

definition bookOrDefault :: "jstring \<Rightarrow> ParsedCitation \<Rightarrow> ParsedCitation" where
  [ev]: "bookOrDefault sourceSegment citation0 =
     (let editionMatch = rx_match editionPattern sourceSegment;
          citation = (case editionMatch of
                        Some m \<Rightarrow> citation0\<lparr>edition := m_group sourceSegment m 1\<rparr>
                      | None \<Rightarrow> citation0);
          hasEdition = (editionMatch \<noteq> None \<or> truthy (edition citation));
          hasBookKeyword = rx_test bookKeywords sourceSegment
      in if hasEdition \<or> hasBookKeyword then
           (let citation' =
              (if editionMatch \<noteq> None then
                 (case rx_match editionFullPattern sourceSegment of
                    Some edFullMatch \<Rightarrow>
                      citation\<lparr>publisher := Some (rx_replace periodAtEnd []
                                                  (grp_trim sourceSegment edFullMatch 2)),
                               source := grp_trim sourceSegment edFullMatch 1\<rparr>
                  | None \<Rightarrow> citation\<lparr>source := sourceSegment\<rparr>)
               else if truthy (edition citation) \<and> editionMatch = None then
                 (case rx_match publisherOnlyPattern sourceSegment of
                    Some pubMatch \<Rightarrow>
                      citation\<lparr>publisher := Some (rx_replace periodAtEnd []
                                                  (grp_trim sourceSegment pubMatch 1)),
                               source := title citation\<rparr>
                  | None \<Rightarrow> citation\<lparr>source := sourceSegment\<rparr>)
               else
                 (case rx_match bookPublisherPattern sourceSegment of
                    Some bookMatch \<Rightarrow>
                      citation\<lparr>publisher := Some (rx_replace periodAtEnd []
                                                  (grp_trim sourceSegment bookMatch 2)),
                               source := grp_trim sourceSegment bookMatch 1\<rparr>
                  | None \<Rightarrow> citation\<lparr>source := sourceSegment\<rparr>))
            in citation'\<lparr>type := Book\<rparr>)
         else
           (let c1 = citation\<lparr>source := trim sourceSegment\<rparr>;
                c2 = (if truthy (volume c1) \<or> truthy (issue c1) then c1\<lparr>type := Journal\<rparr>
                      else if truthy (url c1) \<and> \<not> truthy (doi c1) then c1\<lparr>type := Web\<rparr>
                      else c1)
            in finalFallback c2))"

text \<open>The branch \<open>if (segments.length > 1)\<close>.\<close>

definition parseSourceSegment :: "jstring \<Rightarrow> ParsedCitation \<Rightarrow> ParsedCitation" where
  [ev]: "parseSourceSegment sourceSegment citation =
     (if type citation = Conference then
        (let confName = cleanName sourceSegment
         in if confName \<noteq> [] then citation\<lparr>conferenceName := Some confName\<rparr> else citation)
      else if type citation = Dissertation then
        (let dbName = cleanName sourceSegment
         in if dbName \<noteq> [] then citation\<lparr>databaseName := Some dbName\<rparr> else citation)
      else if type citation = Report then
        (let cleanSource = trim (rx_replace periodSpaceAtEnd [] sourceSegment)
         in if cleanSource \<noteq> [] then citation\<lparr>publisher := Some cleanSource, source := cleanSource\<rparr>
            else citation)
      else
        (case tryPatterns SOURCE_PATTERNS sourceSegment citation of
           Some citation' \<Rightarrow> citation'
         | None \<Rightarrow> bookOrDefault sourceSegment citation))"

definition parseRemainingElements :: "jstring \<Rightarrow> ParsedCitation \<Rightarrow> ParsedCitation" where
  [ev]: "parseRemainingElements afterYear citation0 =
     (case extractReportNo (extractBracket (extractEdition (extractUrl (extractDoi
             (trim (rx_replace leadingPeriod [] afterYear), citation0))))) of
        (remaining, citation) \<Rightarrow>
          (let segments = splitByPeriods remaining;
               c1 = (if length segments > 0 then citation\<lparr>title := trim (segments ! 0)\<rparr>
                     else citation)
           in if length segments > 1 then
                parseSourceSegment (trim (join (js ''. '') (drop 1 segments))) c1
              else finalFallback c1))"

subsection \<open>\<open>parseCitation\<close>\<close>

text \<open>
  \<open>/\((n\.d\.|in press|\d{4}[a-z]?(?:,\s*(?:[A-Z][a-z]+(?:\s+\d{1,2}(?:[\<close>en dash\<open>-]\d{1,2})?)?))?)\)/\<close>
\<close>

definition yearRegex :: rx where
  [ev]: "yearRegex =
     seqs [chr CHR ''('',
       Grp 1 (alts [lit ''n.d.'', lit ''in press'',
         seqs [rrep 4 4 digit, ropt (Ch is_lower),
           ropt (seqs [chr CHR '','', rstar ws,
             seqs [Ch is_upper, rplus (Ch is_lower),
               ropt (seqs [rplus ws, rrep 1 2 digit,
                 ropt (Seq (Ch (\<lambda>c. c = en_dash \<or> c = 45)) (rrep 1 2 digit))])]])]]),
       chr CHR '')'']"

text \<open>\<open>/^(\d{4})/\<close> and \<open>/^\d{4}([a-z])/\<close>\<close>

definition baseYearPattern :: rx where
  [ev]: "baseYearPattern = seqs [Bol, Grp 1 (rrep 4 4 digit)]"

definition suffixPattern :: rx where
  [ev]: "suffixPattern = seqs [Bol, rrep 4 4 digit, Grp 1 (Ch is_lower)]"

text \<open>The date fields, from the text between the parentheses.\<close>

definition setYear :: "jstring \<Rightarrow> ParsedCitation \<Rightarrow> ParsedCitation" where
  [ev]: "setYear fullDateStr citation =
     (if fullDateStr = js ''n.d.'' \<or> fullDateStr = js ''in press'' then citation\<lparr>year := fullDateStr\<rparr>
      else
        (let c1 = (case rx_match baseYearPattern fullDateStr of
                     Some baseYear \<Rightarrow> citation\<lparr>year := or_empty (m_group fullDateStr baseYear 1)\<rparr>
                   | None \<Rightarrow> citation);
             c2 = (case rx_match suffixPattern fullDateStr of
                     Some suffixMatch \<Rightarrow> c1\<lparr>yearSuffix := m_group fullDateStr suffixMatch 1\<rparr>
                   | None \<Rightarrow> c1)
         in if str_includes fullDateStr (js '','') then c2\<lparr>fullDate := Some fullDateStr\<rparr> else c2))"

text \<open>
  No operation of the \<open>try\<close> block throws on a string, so the \<open>catch\<close> has no counterpart.
  The result is \<open>None\<close> when the loop over the author matches does not end.
\<close>

definition parseCitation :: "jstring \<Rightarrow> ParsedCitation option" where
  [ev]: "parseCitation text =
     (let raw' = trim text;
          citation = defaultCitation raw'
      in case rx_match yearRegex raw' of
           Some yearMatch \<Rightarrow>
             (let c1 = setYear (or_empty (m_group raw' yearMatch 1)) citation;
                  yearIndex = (case indexOf raw' (m_text raw' yearMatch) of
                                 Some i \<Rightarrow> int i
                               | None \<Rightarrow> - 1);
                  beforeYear = trim (take (nat yearIndex) raw');
                  afterYear = trim (drop (nat (yearIndex + int (length (m_text raw' yearMatch)))) raw')
              in case parseAuthors beforeYear of
                   None \<Rightarrow> None
                 | Some authors' \<Rightarrow>
                     (let c2 = c1\<lparr>authors := authors'\<rparr>;
                          c3 = (if list_ex (\<lambda>a. Author.isGroupAuthor a = Some True) authors'
                                then c2\<lparr>isGroupAuthor := Some True\<rparr> else c2)
                      in Some (parseRemainingElements afterYear c3)))
         | None \<Rightarrow> Some (citation\<lparr>title := raw'\<rparr>))"

section \<open>Enrichment and the pipeline\<close>

subsection \<open>Title similarity (the CrossRef client)\<close>

text \<open>\<open>/[^\w\s]/g\<close>\<close>

definition normalizeTitle :: "jstring \<Rightarrow> jstring" where
  [ev]: "normalizeTitle t =
     trim (rx_replace_all (rplus ws) (js '' '')
       (rx_replace_all (Ch (\<lambda>c. \<not> is_word c \<and> \<not> is_space c)) (js '' '') (toLowerCase t)))"

text \<open>
  The sets of words are lists without repetition. The quotient of two sizes is compared
  with one half only, which its double decides as the rationals do.
\<close>

definition titleSimilarity :: "jstring \<Rightarrow> jstring \<Rightarrow> rat" where
  [ev]: "titleSimilarity a b =
     (let wordsA = remdups (filter (\<lambda>w. length w > 3) (split_chr 32 (normalizeTitle a)));
          wordsB = remdups (filter (\<lambda>w. length w > 3) (split_chr 32 (normalizeTitle b)))
      in if length wordsA = 0 \<or> length wordsB = 0 then 0
         else
           (let intersection = filter (\<lambda>w. w \<in> set wordsB) wordsA;
                union' = remdups (wordsA @ wordsB)
            in of_nat (length intersection) / of_nat (length union')))"

subsection \<open>Correction from the CrossRef record\<close>

definition mapCrossRefType :: "jstring \<Rightarrow> CitationType" where
  [ev]: "mapCrossRefType crossRefType =
     (if crossRefType = js ''journal-article'' then Journal
      else if crossRefType = js ''book-chapter'' then Chapter
      else if crossRefType = js ''proceedings-article'' then Chapter
      else if crossRefType = js ''book'' then Book
      else Unknown)"

text \<open>\<open>/^https?:\/\/doi\.org\//\<close> and \<open>/^[\<close>en dash\<open>-]/\<close>\<close>

definition doiResolverPrefix :: rx where
  [ev]: "doiResolverPrefix = seqs [Bol, lit ''http'', ropt (chr CHR ''s''), lit ''://doi.org/'']"

definition leadingDash :: rx where
  [ev]: "leadingDash = seqs [Bol, Ch (\<lambda>c. c = 45 \<or> c = en_dash)]"

text \<open>The first part: the identifier and the pages, whatever the types.\<close>

definition supplementFromCrossRef :: "ParsedCitation \<Rightarrow> CrossRefWork \<Rightarrow> ParsedCitation" where
  [ev]: "supplementFromCrossRef citation crossRefWork =
     (let c1 = (if \<not> truthy (doi citation) \<and> CrossRefWork.doi crossRefWork \<noteq> [] then
                  citation\<lparr>doi := Some (js ''https://doi.org/''
                                 @ rx_replace doiResolverPrefix [] (CrossRefWork.doi crossRefWork))\<rparr>
                else citation)
      in if truthy (CrossRefWork.pages crossRefWork) \<and> truthy (pages c1) then
           (let currentPages = rx_replace_all ws [] (or_empty (pages c1));
                crossRefPages = rx_replace_all ws [] (or_empty (CrossRefWork.pages crossRefWork))
            in if \<not> str_includes currentPages (js ''-'') \<and> \<not> str_includes currentPages [en_dash]
                  \<and> str_includes crossRefPages (js ''-'')
               then c1\<lparr>pages := CrossRefWork.pages crossRefWork\<rparr> else c1)
         else if truthy (CrossRefWork.pages crossRefWork) \<and> \<not> truthy (pages c1) then
           c1\<lparr>pages := CrossRefWork.pages crossRefWork\<rparr>
         else c1)"

text \<open>The block \<open>if (citation.type === 'journal' && crossRefType === 'chapter')\<close>.\<close>

definition journalToChapter :: "ParsedCitation \<Rightarrow> CrossRefWork \<Rightarrow> ParsedCitation" where
  [ev]: "journalToChapter corrected crossRefWork =
     (let c1 = (if truthy (volume corrected) \<and> truthy (pages corrected) then
                  (let cleanPages = rx_replace leadingDash [] (or_empty (pages corrected))
                   in corrected\<lparr>pages := Some (or_empty (volume corrected) @ js ''-'' @ cleanPages)\<rparr>)
                else if truthy (volume corrected) \<and> \<not> truthy (pages corrected) then
                  corrected\<lparr>pages := volume corrected\<rparr>
                else corrected);
          c2 = c1\<lparr>volume := None, issue := None\<rparr>;
          c3 = (if source c2 \<noteq> [] \<and> \<not> startsWith (source c2) (js ''In '') then
                  c2\<lparr>source := js ''In '' @ source c2\<rparr>
                else c2);
          c4 = (if truthy (CrossRefWork.publisher crossRefWork) then
                  c3\<lparr>publisher := CrossRefWork.publisher crossRefWork\<rparr>
                else c3);
          c5 = (case CrossRefWork.editors crossRefWork of
                  Some (e # es) \<Rightarrow> c4\<lparr>editors := Some (e # es)\<rparr>
                | _ \<Rightarrow> c4)
      in if truthy (CrossRefWork.edition crossRefWork)
            \<and> (case parseInt (or_empty (CrossRefWork.edition crossRefWork)) of
                  Some n \<Rightarrow> n > 1
                | None \<Rightarrow> False)
         then c5\<lparr>edition := CrossRefWork.edition crossRefWork\<rparr> else c5)"

definition correctCitationWithCrossRef ::
  "ParsedCitation \<Rightarrow> CrossRefWork \<Rightarrow> ParsedCitation \<times> bool" where
  [ev]: "correctCitationWithCrossRef citation crossRefWork =
     (let crossRefType = mapCrossRefType (CrossRefWork.type crossRefWork);
          corrected = supplementFromCrossRef citation crossRefWork
      in if crossRefType = type citation \<or> crossRefType = Unknown then (corrected, False)
         else
           (let corrected' = corrected\<lparr>type := crossRefType\<rparr>
            in if type citation = Journal \<and> crossRefType = Chapter then
                 (journalToChapter corrected' crossRefWork, True)
               else (corrected', True)))"

subsection \<open>\<open>validateCitation\<close>\<close>

text \<open>
  The result of a validation. The \<open>id\<close> is a random identifier and is left out.
\<close>

record ValidationResult =
  citation :: ParsedCitation
  errors :: "ValidationError list"
  autoFixes :: "AutoFix list"
  manualFixes :: "ManualFix list"
  fixedCitation :: jstring
  score :: int

text \<open>Whether the record found is trusted: it has a DOI, a similar title and the same first author.\<close>

definition trusted :: "ParsedCitation \<Rightarrow> CrossRefWork \<Rightarrow> bool" where
  [ev]: "trusted c crossRefWork =
     (CrossRefWork.doi crossRefWork \<noteq> []
      \<and> (let similarity = titleSimilarity (title c) (CrossRefWork.title crossRefWork);
              authorMatches =
                (case (authors c, CrossRefWork.authors crossRefWork) of
                   (a # as, b # bs) \<Rightarrow>
                     (let firstAuthorInput = trim (toLowerCase (lastName a));
                          firstAuthorCrossRef = trim (toLowerCase (lastName b))
                      in str_includes firstAuthorInput firstAuthorCrossRef
                         \<or> str_includes firstAuthorCrossRef firstAuthorInput)
                 | _ \<Rightarrow> True)
          in similarity \<ge> 1 / 2 \<and> authorMatches))"

text \<open>The violation added when the type was changed.\<close>

definition typeMismatchError :: "ParsedCitation \<Rightarrow> ValidationError" where
  [ev]: "typeMismatchError c =
     \<lparr>rule = js ''typeMismatch'', field = js ''type'',
      message = js ''CrossRef indicates this is a ''
        @ (if type c = Chapter then js ''book chapter/proceedings'' else type_name (type c))
        @ js '', not a journal article. Citation format has been corrected.'',
      severity = Info, original = js ''journal'', suggested = None, autoFixable = False\<rparr>"

text \<open>
  Steps 2 to 5 on the parsed citation. \<open>searchByTitle\<close> is the answer of the external
  service to the title, \<open>None\<close> when it has none or fails.
\<close>

definition validateParsed ::
  "(jstring \<Rightarrow> CrossRefWork option) \<Rightarrow> bool \<Rightarrow> ParsedCitation \<Rightarrow> ValidationResult" where
  [ev]: "validateParsed searchByTitle useCrossRef parsed =
     (let originalPages = pages parsed;
          (citation', typeChanged) =
            (if useCrossRef \<and> title parsed \<noteq> [] \<and> length (authors parsed) > 0 then
               (case searchByTitle (title parsed) of
                  Some crossRefWork \<Rightarrow>
                    if trusted parsed crossRefWork then correctCitationWithCrossRef parsed crossRefWork
                    else (parsed, False)
                | None \<Rightarrow> (parsed, False))
             else (parsed, False));
          errors' = runRules ALL_RULES citation'
            @ (if typeChanged then [typeMismatchError citation'] else []);
          (fixedCitation', autoFixes0, manualFixes') = applyAutoFixes citation' errors';
          autoFixes' = autoFixes0 @
            (if originalPages \<noteq> pages citation' \<and> truthy (pages citation') then
               [\<lparr>AutoFix.rule = js ''pageCompletion'', AutoFix.field = js ''pages'',
                 AutoFix.original = (if truthy originalPages then or_empty originalPages
                                     else js ''(missing)''),
                 fixed = or_empty (pages citation'),
                 description = js ''Page range completed via CrossRef: ''
                   @ (if truthy originalPages then or_empty originalPages else js ''(missing)'')
                   @ js '' '' @ [8594] @ js '' '' @ or_empty (pages citation')\<rparr>]
             else [])
      in \<lparr>citation = citation', errors = errors', autoFixes = autoFixes',
          manualFixes = manualFixes', fixedCitation = fixedCitation',
          score = calculateScore errors' autoFixes'\<rparr>)"

definition validateCitation ::
  "(jstring \<Rightarrow> CrossRefWork option) \<Rightarrow> jstring \<Rightarrow> bool \<Rightarrow> ValidationResult option" where
  [ev]: "validateCitation searchByTitle text useCrossRef =
     map_option (validateParsed searchByTitle useCrossRef) (parseCitation text)"

subsection \<open>Canonical initials\<close>

text \<open>
  The canonical form of initials: a capital letter and a period, then a single space and
  the same again, any number of times.
\<close>

fun canonicalInitials :: "jstring \<Rightarrow> bool" where
  "canonicalInitials [] = False"
| "canonicalInitials [l] = False"
| "canonicalInitials [l, d] = (is_upper l \<and> d = 46)"
| "canonicalInitials (l # d # sp # rest) =
     (is_upper l \<and> d = 46 \<and> sp = 32 \<and> canonicalInitials rest)"

section \<open>Verified properties\<close>

subsection \<open>The score\<close>

lemma deduct_eq:
  "deduct vs s =
     s - 15 * of_nat (length (filter (\<lambda>e. severity e = Error) vs))
       - 10 * of_nat (length (filter (\<lambda>e. severity e = Warning) vs))
       - 5 * of_nat (length (filter (\<lambda>e. severity e = Info) vs))"
  by (induction vs arbitrary: s) (auto split: Severity.splits simp: algebra_simps)

lemma addBack_eq:
  "addBack vs fs s =
     s + 15 / 2 * of_nat (length (filter (\<lambda>f. origin_severity vs f = Some Error) fs))
       + 5 * of_nat (length (filter (\<lambda>f. origin_severity vs f = Some Warning) fs))
       + 5 / 2 * of_nat (length (filter (\<lambda>f. origin_severity vs f = Some Info) fs))"
  by (induction fs arbitrary: s)
     (auto split: Severity.splits option.splits simp: algebra_simps origin_severity_def)

text \<open>
  C1. For every list of violations and every list of applied fixes, \<open>calculateScore\<close> is 100
  minus 15 for each error, 10 for each warning and 5 for each info, plus 7.5, 5 or 2.5 for
  each fix whose violation is found (by rule and field), rounded and clamped to 0..100.
  No violation and no fix score 100, one error 85, one warning 90, one fixed warning 95,
  ten errors 0.
\<close>

theorem calculateScore_formula:
  "calculateScore vs fs =
     max 0 (min 100 (js_round
       (100 - 15 * of_nat (length (filter (\<lambda>e. severity e = Error) vs))
            - 10 * of_nat (length (filter (\<lambda>e. severity e = Warning) vs))
            - 5 * of_nat (length (filter (\<lambda>e. severity e = Info) vs))
            + 15 / 2 * of_nat (length (filter (\<lambda>f. origin_severity vs f = Some Error) fs))
            + 5 * of_nat (length (filter (\<lambda>f. origin_severity vs f = Some Warning) fs))
            + 5 / 2 * of_nat (length (filter (\<lambda>f. origin_severity vs f = Some Info) fs)))))
   \<and> 0 \<le> calculateScore vs fs \<and> calculateScore vs fs \<le> 100
   \<and> calculateScore [] [] = 100
   \<and> calculateScore [e\<lparr>severity := Error\<rparr>] [] = 85
   \<and> calculateScore [e\<lparr>severity := Warning\<rparr>] [] = 90
   \<and> calculateScore [e\<lparr>severity := Warning\<rparr>]
        [f\<lparr>AutoFix.rule := rule e, AutoFix.field := field e\<rparr>] = 95
   \<and> calculateScore (replicate 10 (e\<lparr>severity := Error\<rparr>)) [] = 0"
proof -
  have formula: "calculateScore vs fs =
     max 0 (min 100 (js_round
       (100 - 15 * of_nat (length (filter (\<lambda>e. severity e = Error) vs))
            - 10 * of_nat (length (filter (\<lambda>e. severity e = Warning) vs))
            - 5 * of_nat (length (filter (\<lambda>e. severity e = Info) vs))
            + 15 / 2 * of_nat (length (filter (\<lambda>f. origin_severity vs f = Some Error) fs))
            + 5 * of_nat (length (filter (\<lambda>f. origin_severity vs f = Some Warning) fs))
            + 5 / 2 * of_nat (length (filter (\<lambda>f. origin_severity vs f = Some Info) fs)))))"
    unfolding calculateScore_def addBack_eq deduct_eq by simp
  have bounds: "0 \<le> calculateScore vs fs \<and> calculateScore vs fs \<le> 100"
    by (simp add: calculateScore_def)
  have r100: "js_round 100 = 100" and r85: "js_round 85 = 85" and r90: "js_round 90 = 90"
    and r95: "js_round 95 = 95" and rneg: "js_round (- 50) = - 50"
    by (simp_all add: js_round_def floor_eq_iff)
  have none: "calculateScore [] [] = 100"
    by (simp add: calculateScore_def r100)
  have one_error: "calculateScore [e\<lparr>severity := Error\<rparr>] [] = 85"
    by (simp add: calculateScore_def r85)
  have one_warning: "calculateScore [e\<lparr>severity := Warning\<rparr>] [] = 90"
    by (simp add: calculateScore_def r90)
  have fixed_warning: "calculateScore [e\<lparr>severity := Warning\<rparr>]
        [f\<lparr>AutoFix.rule := rule e, AutoFix.field := field e\<rparr>] = 95"
    by (simp add: calculateScore_def r95)
  have "deduct (replicate n (e\<lparr>severity := Error\<rparr>)) s = s - 15 * of_nat n" for n s
    by (induction n arbitrary: s) (simp_all add: algebra_simps)
  then have ten_vs: "calculateScore (replicate 10 (e\<lparr>severity := Error\<rparr>)) [] = 0"
    by (simp add: calculateScore_def rneg)
  from formula bounds none one_error one_warning fixed_warning ten_vs show ?thesis
    by blast
qed

subsection \<open>Violations that share a rule and a field\<close>

text \<open>
  C10. \<open>checkPageFormat\<close> emits, for one journal citation with the pages \<open>pp. 45-67\<close>, an
  error and a warning that share the rule \<open>pageFormat\<close> and the field \<open>pages\<close>. The amount
  \<open>calculateScore\<close> adds back for a fix with that rule and field is that of the first such
  violation in the list, whatever follows it, so the score depends on the order of the
  violations: 90 in the order of the rule, 85 in the reverse order, for the same fixes.
\<close>

theorem score_depends_on_violation_order:
  "map (\<lambda>e. (rule e, field e, severity e))
       (checkPageFormat (c\<lparr>type := Journal, pages := Some (js ''pp. 45-67'')\<rparr>))
     = [(js ''pageFormat'', js ''pages'', Error), (js ''pageFormat'', js ''pages'', Warning)]
   \<and> addBack (e # es) [f\<lparr>AutoFix.rule := rule e, AutoFix.field := field e\<rparr>] s
     = s + (case severity e of Error \<Rightarrow> 15 / 2 | Warning \<Rightarrow> 5 | Info \<Rightarrow> 5 / 2)
   \<and> calculateScore
         (checkPageFormat (c\<lparr>type := Journal, pages := Some (js ''pp. 45-67'')\<rparr>))
         (fst (snd (applyAutoFixes (c\<lparr>type := Journal, pages := Some (js ''pp. 45-67'')\<rparr>)
            (checkPageFormat (c\<lparr>type := Journal, pages := Some (js ''pp. 45-67'')\<rparr>))))) = 90
   \<and> calculateScore
         (rev (checkPageFormat (c\<lparr>type := Journal, pages := Some (js ''pp. 45-67'')\<rparr>)))
         (fst (snd (applyAutoFixes (c\<lparr>type := Journal, pages := Some (js ''pp. 45-67'')\<rparr>)
            (checkPageFormat (c\<lparr>type := Journal, pages := Some (js ''pp. 45-67'')\<rparr>))))) = 85"
proof -
  have r90: "js_round 90 = 90" and r85: "js_round 85 = 85"
    by (simp_all add: js_round_def floor_eq_iff)
  have emitted: "map (\<lambda>e. (rule e, field e, severity e))
       (checkPageFormat (c\<lparr>type := Journal, pages := Some (js ''pp. 45-67'')\<rparr>))
     = [(js ''pageFormat'', js ''pages'', Error), (js ''pageFormat'', js ''pages'', Warning)]"
    by (simp add: ev)
  have first: "addBack (e # es) [f\<lparr>AutoFix.rule := rule e, AutoFix.field := field e\<rparr>] s
     = s + (case severity e of Error \<Rightarrow> 15 / 2 | Warning \<Rightarrow> 5 | Info \<Rightarrow> 5 / 2)"
    by (simp split: Severity.splits)
  have in_order: "calculateScore
         (checkPageFormat (c\<lparr>type := Journal, pages := Some (js ''pp. 45-67'')\<rparr>))
         (fst (snd (applyAutoFixes (c\<lparr>type := Journal, pages := Some (js ''pp. 45-67'')\<rparr>)
            (checkPageFormat (c\<lparr>type := Journal, pages := Some (js ''pp. 45-67'')\<rparr>))))) = 90"
    by (simp add: ev del: js_round_def add: r90)
  have reversed: "calculateScore
         (rev (checkPageFormat (c\<lparr>type := Journal, pages := Some (js ''pp. 45-67'')\<rparr>)))
         (fst (snd (applyAutoFixes (c\<lparr>type := Journal, pages := Some (js ''pp. 45-67'')\<rparr>)
            (checkPageFormat (c\<lparr>type := Journal, pages := Some (js ''pp. 45-67'')\<rparr>))))) = 85"
    by (simp add: ev del: js_round_def add: r85)
  from emitted first in_order reversed show ?thesis by blast
qed

subsection \<open>The DOI fix\<close>

text \<open>
  C3. For a citation whose \<open>doi\<close> is \<open>doi:10.1234/test\<close>, \<open>10.1234/test\<close> or
  \<open>https://doi.org/10.1234/test.\<close>, whatever its other fields, applying the fixable
  violations of \<open>checkDOIFormat\<close> with \<open>applyAutoFixes\<close> sets the \<open>doi\<close> of the corrected
  record to exactly \<open>https://doi.org/10.1234/test\<close>, and that is the value of the one fix
  reported.
\<close>

theorem doi_fix_canonical:
  "doi (fixedRecord (c\<lparr>doi := Some (js ''doi:10.1234/test'')\<rparr>)
         (checkDOIFormat (c\<lparr>doi := Some (js ''doi:10.1234/test'')\<rparr>)))
     = Some (js ''https://doi.org/10.1234/test'')
   \<and> map fixed (fst (snd (applyAutoFixes (c\<lparr>doi := Some (js ''doi:10.1234/test'')\<rparr>)
         (checkDOIFormat (c\<lparr>doi := Some (js ''doi:10.1234/test'')\<rparr>)))))
     = [js ''https://doi.org/10.1234/test'']
   \<and> doi (fixedRecord (c\<lparr>doi := Some (js ''10.1234/test'')\<rparr>)
         (checkDOIFormat (c\<lparr>doi := Some (js ''10.1234/test'')\<rparr>)))
     = Some (js ''https://doi.org/10.1234/test'')
   \<and> map fixed (fst (snd (applyAutoFixes (c\<lparr>doi := Some (js ''10.1234/test'')\<rparr>)
         (checkDOIFormat (c\<lparr>doi := Some (js ''10.1234/test'')\<rparr>)))))
     = [js ''https://doi.org/10.1234/test'']
   \<and> doi (fixedRecord (c\<lparr>doi := Some (js ''https://doi.org/10.1234/test.'')\<rparr>)
         (checkDOIFormat (c\<lparr>doi := Some (js ''https://doi.org/10.1234/test.'')\<rparr>)))
     = Some (js ''https://doi.org/10.1234/test'')
   \<and> map fixed (fst (snd (applyAutoFixes (c\<lparr>doi := Some (js ''https://doi.org/10.1234/test.'')\<rparr>)
         (checkDOIFormat (c\<lparr>doi := Some (js ''https://doi.org/10.1234/test.'')\<rparr>)))))
     = [js ''https://doi.org/10.1234/test'']"
proof -
  have prefixed: "doi (fixedRecord (c\<lparr>doi := Some (js ''doi:10.1234/test'')\<rparr>)
         (checkDOIFormat (c\<lparr>doi := Some (js ''doi:10.1234/test'')\<rparr>)))
     = Some (js ''https://doi.org/10.1234/test'')"
    by (simp add: ev)
  have prefixed_fix: "map fixed (fst (snd (applyAutoFixes (c\<lparr>doi := Some (js ''doi:10.1234/test'')\<rparr>)
         (checkDOIFormat (c\<lparr>doi := Some (js ''doi:10.1234/test'')\<rparr>)))))
     = [js ''https://doi.org/10.1234/test'']"
    by (simp add: ev)
  have bare: "doi (fixedRecord (c\<lparr>doi := Some (js ''10.1234/test'')\<rparr>)
         (checkDOIFormat (c\<lparr>doi := Some (js ''10.1234/test'')\<rparr>)))
     = Some (js ''https://doi.org/10.1234/test'')"
    by (simp add: ev)
  have bare_fix: "map fixed (fst (snd (applyAutoFixes (c\<lparr>doi := Some (js ''10.1234/test'')\<rparr>)
         (checkDOIFormat (c\<lparr>doi := Some (js ''10.1234/test'')\<rparr>)))))
     = [js ''https://doi.org/10.1234/test'']"
    by (simp add: ev)
  have period: "doi (fixedRecord (c\<lparr>doi := Some (js ''https://doi.org/10.1234/test.'')\<rparr>)
         (checkDOIFormat (c\<lparr>doi := Some (js ''https://doi.org/10.1234/test.'')\<rparr>)))
     = Some (js ''https://doi.org/10.1234/test'')"
    by (simp add: ev)
  have period_fix: "map fixed (fst (snd (applyAutoFixes (c\<lparr>doi := Some (js ''https://doi.org/10.1234/test.'')\<rparr>)
         (checkDOIFormat (c\<lparr>doi := Some (js ''https://doi.org/10.1234/test.'')\<rparr>)))))
     = [js ''https://doi.org/10.1234/test'']"
    by (simp add: ev)
  from prefixed prefixed_fix bare bare_fix period period_fix show ?thesis by blast
qed

subsection \<open>The parser always returns\<close>

lemma authorRegex_min: "0 < rx_min authorRegex"
  by (simp add: ev)

lemma authorsOfParts_total: "authorsOfParts parts \<noteq> None"
  by (induction parts) (auto split: option.splits simp: exec_loop_total [OF authorRegex_min])

lemma parseAuthors_total: "parseAuthors b \<noteq> None"
  by (simp add: parseAuthors_def Let_def authorsOfParts_total split: option.splits)

lemma parseCitation_total: "parseCitation text \<noteq> None"
  by (simp add: parseCitation_def Let_def parseAuthors_total split: option.splits)

text \<open>
  C4, as the code has it. \<open>parseCitation\<close> returns a record for every input: the loop over
  the author matches ends, and nothing else can fail. When the search for the year token,
  which runs on the trimmed input, finds none, the record is the fallback: its title is
  the input without its leading and trailing white space, its authors, year and source
  are empty and its type is \<open>unknown\<close>.
\<close>

theorem parseCitation_total_fallback:
  "\<exists>c. parseCitation text = Some c
     \<and> (rx_match yearRegex (trim text) = None \<longrightarrow>
          title c = trim text \<and> raw c = trim text \<and> authors c = [] \<and> year c = []
          \<and> source c = [] \<and> type c = Unknown)"
proof (cases "rx_match yearRegex (trim text)")
  case None
  then have "parseCitation text = Some ((defaultCitation (trim text))\<lparr>title := trim text\<rparr>)"
    by (simp add: parseCitation_def Let_def)
  with None show ?thesis by (simp add: defaultCitation_def)
next
  case (Some m)
  with parseCitation_total [of "text"] show ?thesis by auto
qed

theorem parseCitation_total_fallback_witness:
  "rx_match yearRegex (trim (js ''  Some text without a year  '')) = None
   \<and> (\<exists>c. parseCitation (js ''  Some text without a year  '') = Some c
        \<and> title c = js ''Some text without a year'' \<and> authors c = [] \<and> year c = []
        \<and> source c = [] \<and> type c = Unknown)"
proof -
  have no_year: "rx_match yearRegex (trim (js ''  Some text without a year  '')) = None"
    by (simp add: ev)
  have trimmed: "trim (js ''  Some text without a year  '') = js ''Some text without a year''"
    by (simp add: ev)
  from parseCitation_total_fallback [of "js ''  Some text without a year  ''"] no_year trimmed
  show ?thesis by auto
qed

text \<open>
  The claim as stated fails on an input with white space around it: no year token is
  found in the input, and the title of the record is not the whole input.
\<close>

theorem fallback_title_counterexample:
  "rx_match yearRegex (js ''  Some text without a year  '') = None
   \<and> map_option title (parseCitation (js ''  Some text without a year  ''))
       = Some (js ''Some text without a year'')
   \<and> js ''Some text without a year'' \<noteq> js ''  Some text without a year  ''"
  by (simp add: ev)

subsection \<open>The order of the source patterns\<close>

text \<open>
  C5. The journal example parses to type \<open>journal\<close> with exactly two authors, volume 45,
  issue 2 and pages 123-145. The chapter example parses to type \<open>chapter\<close> with the source
  \<open>In Book Title\<close>, which contains \<open>In\<close>, and pages 20-31: on its source segment the chapter
  pattern comes first in \<open>SOURCE_PATTERNS\<close> and wins, although the general journal pattern
  matches the segment too and alone would make it a journal.
\<close>

theorem source_pattern_order:
  "map_option (\<lambda>c. (type c, length (authors c), volume c, issue c, pages c))
     (parseCitation (js ''Kim, B. Y., & Lee, S. H. (2024). The impact of AI on education. Journal of Educational Technology, 45(2), 123-145.''))
     = Some (Journal, 2, Some (js ''45''), Some (js ''2''), Some (js ''123-145''))
   \<and> map_option (\<lambda>c. (type c, source c, pages c))
     (parseCitation (js ''Author, A. (2023). Chapter title. In Book Title (pp. 20-31). Publisher.''))
     = Some (Chapter, js ''In Book Title'', Some (js ''20-31''))
   \<and> str_includes (js ''In Book Title'') (js ''In'')
   \<and> rx_test (fst journalPattern) (js ''In Book Title (pp. 20-31). Publisher.'')
   \<and> map_option type (tryPatterns SOURCE_PATTERNS (js ''In Book Title (pp. 20-31). Publisher.'') c)
     = Some Chapter
   \<and> map_option type (tryPatterns [journalPattern] (js ''In Book Title (pp. 20-31). Publisher.'') c)
     = Some Journal"
proof -
  have journal: "map_option (\<lambda>c. (type c, length (authors c), volume c, issue c, pages c))
     (parseCitation (js ''Kim, B. Y., & Lee, S. H. (2024). The impact of AI on education. Journal of Educational Technology, 45(2), 123-145.''))
     = Some (Journal, 2, Some (js ''45''), Some (js ''2''), Some (js ''123-145''))"
    by (simp add: ev exec_loop.simps)
  have chapter_parse: "map_option (\<lambda>c. (type c, source c, pages c))
     (parseCitation (js ''Author, A. (2023). Chapter title. In Book Title (pp. 20-31). Publisher.''))
     = Some (Chapter, js ''In Book Title'', Some (js ''20-31''))"
    by (simp add: ev exec_loop.simps)
  have contains: "str_includes (js ''In Book Title'') (js ''In'')"
    by (simp add: ev)
  have also_journal: "rx_test (fst journalPattern) (js ''In Book Title (pp. 20-31). Publisher.'')"
    by (simp add: ev)
  have first_wins:
    "map_option type (tryPatterns SOURCE_PATTERNS (js ''In Book Title (pp. 20-31). Publisher.'') c)
     = Some Chapter"
    by (simp add: ev)
  have alone:
    "map_option type (tryPatterns [journalPattern] (js ''In Book Title (pp. 20-31). Publisher.'') c)
     = Some Journal"
    by (simp add: ev)
  from journal chapter_parse contains also_journal first_wins alone show ?thesis by blast
qed

subsection \<open>The author list of the reconstruction\<close>










subsection \<open>What the rules emit\<close>


lemma names [simp]:
  "js ''authorFormat'' \<noteq> js ''typeMismatch''"
  "js ''yearFormat'' \<noteq> js ''typeMismatch''"
  "js ''titleCase'' \<noteq> js ''typeMismatch''"
  "js ''doiFormat'' \<noteq> js ''typeMismatch''"
  "js ''doiPresence'' \<noteq> js ''typeMismatch''"
  "js ''ampersand'' \<noteq> js ''typeMismatch''"
  "js ''terminalPeriod'' \<noteq> js ''typeMismatch''"
  "js ''volumeFormat'' \<noteq> js ''typeMismatch''"
  "js ''issueFormat'' \<noteq> js ''typeMismatch''"
  "js ''journalNameCase'' \<noteq> js ''typeMismatch''"
  "js ''pageFormat'' \<noteq> js ''typeMismatch''"
  "js ''conferenceNameCase'' \<noteq> js ''typeMismatch''"
  "js ''chapterEditors'' \<noteq> js ''typeMismatch''"
  "js ''inPrefix'' \<noteq> js ''typeMismatch''"
  "js ''publisherRequired'' \<noteq> js ''typeMismatch''"
  "js ''editionFormat'' \<noteq> js ''typeMismatch''"
  "js ''publisherLocation'' \<noteq> js ''typeMismatch''"
  "js ''fullDateRequired'' \<noteq> js ''typeMismatch''"
  "js ''conferenceInfo'' \<noteq> js ''typeMismatch''"
  "js ''bracketType'' \<noteq> js ''typeMismatch''"
  "js ''dissertationInfo'' \<noteq> js ''typeMismatch''"
  "js ''reportNumber'' \<noteq> js ''typeMismatch''"
  by (simp_all add: js_def)































subsection \<open>The correction from journal to chapter\<close>







subsection \<open>Re-parsing the reconstruction\<close>































subsection \<open>The initials of parsed authors\<close>

lemma rx_run_drop:
  "rx_run k pos s cs = Some (cs', e, rest) \<Longrightarrow> pos \<le> e \<and> rest = drop (e - pos) s"
proof (induction k pos s cs arbitrary: cs' e rest rule: rx_run.induct)
  case (5 p k pos c s cs)
  then have "p c" and "pos + 1 \<le> e \<and> rest = drop (e - (pos + 1)) s"
    by (auto split: if_splits)
  then have "e - pos = Suc (e - (pos + 1))" by arith
  with \<open>pos + 1 \<le> e \<and> rest = drop (e - (pos + 1)) s\<close> show ?case
    by (simp del: One_nat_def)
next
  case (10 a b k pos s cs)
  then show ?case by (auto split: option.splits)
next
  case (12 g mn mx r k pos s cs)
  then show ?case by (auto split: option.splits if_splits)
qed (auto split: if_splits)

lemma rx_search_run:
  "rx_search r pos s = Some (st, e, cs, rest) \<Longrightarrow>
     pos \<le> st \<and> rx_run [R r] st (drop (st - pos) s) [] = Some (cs, e, rest)"
proof (induction r pos s rule: rx_search.induct)
  case (1 r pos)
  then show ?case by (auto split: option.splits)
next
  case (2 r pos c s)
  show ?case
  proof (cases "rx_run [R r] pos (c # s) []")
    case None
    with 2 have "pos + 1 \<le> st \<and> rx_run [R r] st (drop (st - (pos + 1)) s) [] = Some (cs, e, rest)"
      by simp
    moreover then have "st - pos = Suc (st - (pos + 1))" by arith
    ultimately show ?thesis by (simp del: One_nat_def)
  next
    case (Some a)
    with 2 show ?thesis by (auto split: prod.splits)
  qed
qed

lemma rx_run_last:
  "rx_run (k @ [Cls i st]) pos s cs = Some (cs', e, rest) \<Longrightarrow> \<exists>cs''. cs' = (i, st, e) # cs''"
proof (induction "k @ [Cls i st]" pos s cs arbitrary: k rule: rx_run.induct)
  case (1 pos s cs)
  then show ?case by simp
next
  case (2 p0 k' pos s cs)
  then obtain k2 where k: "k = Chk p0 # k2" "k' = k2 @ [Cls i st]"
    by (cases k) auto
  with 2 show ?case by (auto split: if_splits)
next
  case (3 j st' k' pos s cs)
  show ?case
  proof (cases k)
    case Nil
    with 3 show ?thesis by auto
  next
    case (Cons x k2)
    with 3 show ?thesis by auto
  qed
next
  case (4 p k' pos cs)
  then show ?case by (cases k) auto
next
  case (5 p k' pos c s cs)
  then obtain k2 where k: "k = R (Ch p) # k2" "k' = k2 @ [Cls i st]"
    by (cases k) auto
  with 5 show ?case by (auto split: if_splits)
next
  case (6 k' pos s cs)
  then obtain k2 where k: "k = R Eps # k2" "k' = k2 @ [Cls i st]"
    by (cases k) auto
  with 6 show ?case by (auto split: if_splits)
next
  case (7 k' pos s cs)
  then obtain k2 where k: "k = R Bol # k2" "k' = k2 @ [Cls i st]"
    by (cases k) auto
  with 7 show ?case by (auto split: if_splits)
next
  case (8 k' pos s cs)
  then obtain k2 where k: "k = R Eol # k2" "k' = k2 @ [Cls i st]"
    by (cases k) auto
  with 8 show ?case by (auto split: if_splits)
next
  case (9 a b k' pos s cs)
  then obtain k2 where k: "k = R (Seq a b) # k2" "k' = k2 @ [Cls i st]"
    by (cases k) auto
  from 9(1) [of "R a # R b # k2"] 9(3) k show ?case by simp
next
  case (10 a b k' pos s cs)
  then obtain k2 where k: "k = R (Alt a b) # k2" "k' = k2 @ [Cls i st]"
    by (cases k) auto
  from 10(1) [of "R a # k2"] 10(2) [of "R b # k2"] 10(4) k show ?case
    by (auto split: option.splits)
next
  case (11 j r k' pos s cs)
  then obtain k2 where k: "k = R (Grp j r) # k2" "k' = k2 @ [Cls i st]"
    by (cases k) auto
  from 11(1) [of "R r # Cls j pos # k2"] 11(3) k show ?case by simp
next
  case (12 g mn mx r k' pos s cs)
  then obtain k2 where k: "k = R (Rep g mn mx r) # k2" "k' = k2 @ [Cls i st]"
    by (cases k) auto
  show ?case
  proof (cases "0 < mn")
    case True
    with 12(1) [of "R r # R (Rep g (mn - 1) (dec_max mx) r) # k2"] "12.prems" k show ?thesis
      by simp
  next
    case False
    with 12(2) [of k2] 12(3) [of "R r # Chk pos # R (Rep g 0 (dec_max mx) r) # k2"]
      12(4) [of k2] 12(5) [of k2] 12(6) [of "R r # Chk pos # R (Rep g 0 (dec_max mx) r) # k2"]
      "12.prems" k
    show ?thesis
      by (auto split: option.splits if_splits)
  qed
qed


text \<open>A match of a stack passes through a match of each of its rear parts.\<close>

lemma rx_run_through:
  "rx_run (k1 @ k2) pos s cs = Some res \<Longrightarrow>
     \<exists>pos' cs1. pos \<le> pos' \<and> rx_run k2 pos' (drop (pos' - pos) s) cs1 = Some res"
proof (induction "k1 @ k2" pos s cs arbitrary: k1 rule: rx_run.induct)
  case (1 pos s cs)
  then have "rx_run k2 pos (drop (pos - pos) s) cs = Some res" by simp
  then show ?case by blast
next
  case (2 p0 k' pos s cs)
  show ?case
  proof (cases k1)
    case Nil
    with 2 have "rx_run k2 pos (drop (pos - pos) s) cs = Some res" by simp
    then show ?thesis by blast
  next
    case (Cons x k3)
    with 2 show ?thesis by (auto split: if_splits)
  qed
next
  case (3 j st' k' pos s cs)
  show ?case
  proof (cases k1)
    case Nil
    with 3 have "rx_run k2 pos (drop (pos - pos) s) cs = Some res" by simp
    then show ?thesis by blast
  next
    case (Cons x k3)
    with 3 show ?thesis by auto
  qed
next
  case (4 p k' pos cs)
  show ?case
  proof (cases k1)
    case Nil
    with 4 have "rx_run k2 pos (drop (pos - pos) []) cs = Some res" by simp
    then show ?thesis by blast
  next
    case (Cons x k3)
    with 4 show ?thesis by auto
  qed
next
  case (5 p k' pos c s cs)
  show ?case
  proof (cases k1)
    case Nil
    with 5 have "rx_run k2 pos (drop (pos - pos) (c # s)) cs = Some res" by simp
    then show ?thesis by blast
  next
    case (Cons x k3)
    with 5 have pc: "p c" and k': "k' = k3 @ k2" and run: "rx_run (k3 @ k2) (pos + 1) s cs = Some res"
      by (auto split: if_splits)
    from 5(1) [OF pc k' run] obtain pos' cs1 where
      a: "pos + 1 \<le> pos'" "rx_run k2 pos' (drop (pos' - (pos + 1)) s) cs1 = Some res"
      by blast
    from a(1) have "pos' - pos = Suc (pos' - (pos + 1))" by arith
    with a have "pos \<le> pos' \<and> rx_run k2 pos' (drop (pos' - pos) (c # s)) cs1 = Some res"
      by (simp del: One_nat_def)
    then show ?thesis by blast
  qed
next
  case (6 k' pos s cs)
  show ?case
  proof (cases k1)
    case Nil
    with 6 have "rx_run k2 pos (drop (pos - pos) s) cs = Some res" by simp
    then show ?thesis by blast
  next
    case (Cons x k3)
    with 6 show ?thesis by auto
  qed
next
  case (7 k' pos s cs)
  show ?case
  proof (cases k1)
    case Nil
    with 7 have "rx_run k2 pos (drop (pos - pos) s) cs = Some res" by simp
    then show ?thesis by blast
  next
    case (Cons x k3)
    with 7 show ?thesis by (auto split: if_splits)
  qed
next
  case (8 k' pos s cs)
  show ?case
  proof (cases k1)
    case Nil
    with 8 have "rx_run k2 pos (drop (pos - pos) s) cs = Some res" by simp
    then show ?thesis by blast
  next
    case (Cons x k3)
    with 8 show ?thesis by (auto split: if_splits)
  qed
next
  case (9 a b k' pos s cs)
  show ?case
  proof (cases k1)
    case Nil
    with 9 have "rx_run k2 pos (drop (pos - pos) s) cs = Some res" by simp
    then show ?thesis by blast
  next
    case (Cons x k3)
    with 9(1) [of "R a # R b # k3"] 9(2,3) show ?thesis by auto
  qed
next
  case (10 a b k' pos s cs)
  show ?case
  proof (cases k1)
    case Nil
    with 10 have "rx_run k2 pos (drop (pos - pos) s) cs = Some res" by simp
    then show ?thesis by blast
  next
    case (Cons x k3)
    with 10(1) [of "R a # k3"] 10(2) [of "R b # k3"] 10(3,4) show ?thesis
      by (auto split: option.splits)
  qed
next
  case (11 j r k' pos s cs)
  show ?case
  proof (cases k1)
    case Nil
    with 11 have "rx_run k2 pos (drop (pos - pos) s) cs = Some res" by simp
    then show ?thesis by blast
  next
    case (Cons x k3)
    with 11(1) [of "R r # Cls j pos # k3"] 11(2,3) show ?thesis by auto
  qed
next
  case (12 g mn mx r k' pos s cs)
  show ?case
  proof (cases k1)
    case Nil
    with 12 have "rx_run k2 pos (drop (pos - pos) s) cs = Some res" by simp
    then show ?thesis by blast
  next
    case (Cons x k3)
    then have k: "k1 = R (Rep g mn mx r) # k3" "k' = k3 @ k2" using 12(7) by auto
    show ?thesis
    proof (cases "0 < mn")
      case True
      with 12(1) [of "R r # R (Rep g (mn - 1) (dec_max mx) r) # k3"] "12.prems" k show ?thesis
        by simp
    next
      case False
      with 12(2) [of k3] 12(3) [of "R r # Chk pos # R (Rep g 0 (dec_max mx) r) # k3"]
        12(4) [of k3] 12(5) [of k3] 12(6) [of "R r # Chk pos # R (Rep g 0 (dec_max mx) r) # k3"]
        "12.prems" k
      show ?thesis
        by (auto split: option.splits if_splits)
    qed
  qed
qed


lemma rx_run_seq:
  assumes "rx_run [R (Seq a b)] pos s cs = Some res"
  shows "\<exists>pos' cs1. pos \<le> pos' \<and> rx_run [R b] pos' (drop (pos' - pos) s) cs1 = Some res"
proof -
  from assms have "rx_run ([R a] @ [R b]) pos s cs = Some res" by simp
  from rx_run_through [OF this] show ?thesis .
qed

text \<open>The second group of a match of \<open>authorRegex\<close> starts with a capital letter.\<close>

lemma authorRegex_initials:
  assumes "rx_run [R authorRegex] st s [] = Some (cs, e, rest)"
  shows "\<exists>p c t. st \<le> p \<and> p < e \<and> map_of cs 2 = Some (p, e) \<and> drop (p - st) s = c # t \<and> is_upper c"
proof -
  let ?X = "seqs [Ch is_upper, chr CHR ''.'', rstar ws]"
  let ?G2 = "Grp 2 (rplus ?X)"
  from assms have "rx_run [R (Seq (Grp 1 (Seq nameChars prefixes))
      (Seq (chr CHR '','') (Seq (rstar ws) ?G2)))] st s [] = Some (cs, e, rest)"
    by (simp add: authorRegex_def)
  from rx_run_seq [OF this] obtain p1 cs1 where p1: "st \<le> p1"
    and run1: "rx_run [R (Seq (chr CHR '','') (Seq (rstar ws) ?G2))] p1 (drop (p1 - st) s) cs1
      = Some (cs, e, rest)"
    by blast
  from rx_run_seq [OF run1] obtain p2 cs2 where p2: "p1 \<le> p2"
    and run2: "rx_run [R (Seq (rstar ws) ?G2)] p2 (drop (p2 - p1) (drop (p1 - st) s)) cs2
      = Some (cs, e, rest)"
    by blast
  from rx_run_seq [OF run2] obtain p cs3 where p3: "p2 \<le> p"
    and run3: "rx_run [R ?G2] p (drop (p - p2) (drop (p2 - p1) (drop (p1 - st) s))) cs3
      = Some (cs, e, rest)"
    by blast
  from p1 p2 p3 have p: "st \<le> p" and "p - p2 + (p2 - p1 + (p1 - st)) = p - st"
    by arith+
  with run3 have run: "rx_run [R ?G2] p (drop (p - st) s) cs3 = Some (cs, e, rest)"
    by simp
  show ?thesis
  proof (cases "drop (p - st) s")
    case Nil
    with run show ?thesis by simp
  next
    case (Cons c t)
    with run have up: "is_upper c"
      and run4: "rx_run ([R (Seq (chr CHR ''.'') (rstar ws)), R (rstar ?X)] @ [Cls 2 p]) (p + 1) t cs3
        = Some (cs, e, rest)"
      by (auto split: if_splits)
    from rx_run_last [OF run4] obtain cs4 where "cs = (2, p, e) # cs4" by blast
    moreover from rx_run_rest [OF run4] have "p < e" by simp
    ultimately show ?thesis using p Cons up by auto
  qed
qed


text \<open>Every match the loop collects is a match of the expression at its start position.\<close>

lemma exec_loop_matches_gen:
  "exec_loop r pos s = Some ms \<Longrightarrow>
     \<forall>part m. s = drop pos part \<longrightarrow> m \<in> set ms \<longrightarrow>
       (\<exists>st e cs rest. m = (st, e, cs, rest) \<and> rx_run [R r] st (drop st part) [] = Some (cs, e, rest))"
proof (induction rule: exec_loop.raw_induct [rotated 1, consumes 1])
  case (1 loop r pos s ms)
  show ?case
  proof (cases "rx_search r pos s")
    case None
    with 1(2) show ?thesis by simp
  next
    case (Some m0)
    obtain st e cs rest where m0: "m0 = (st, e, cs, rest)" by (cases m0) auto
    from 1(2) Some m0 obtain ms' where ms': "loop r e rest = Some ms'" and ms: "ms = m0 # ms'"
      by (auto split: Option.bind_splits)
    from rx_search_run [OF Some [unfolded m0]] have st: "pos \<le> st"
      and run: "rx_run [R r] st (drop (st - pos) s) [] = Some (cs, e, rest)"
      by simp_all
    from rx_run_drop [OF run] have e: "st \<le> e" and rest: "rest = drop (e - st) (drop (st - pos) s)"
      by simp_all
    show ?thesis
    proof (intro allI impI)
      fix part m
      assume s: "s = drop pos part" and m: "m \<in> set ms"
      from st have a: "st - pos + pos = st" by simp
      from st e have b: "e - st + (st - pos + pos) = e" by simp
      from run s a have run': "rx_run [R r] st (drop st part) [] = Some (cs, e, rest)"
        by simp
      from rest s b have rest': "rest = drop e part" by simp
      from m ms have "m = m0 \<or> m \<in> set ms'" by auto
      then show "\<exists>st e cs rest. m = (st, e, cs, rest)
          \<and> rx_run [R r] st (drop st part) [] = Some (cs, e, rest)"
      proof
        assume "m = m0"
        with m0 run' show ?thesis by blast
      next
        assume "m \<in> set ms'"
        with 1(1) [OF ms'] rest' show ?thesis by blast
      qed
    qed
  qed
qed

lemma exec_loop_matches:
  assumes "exec_loop r 0 part = Some ms" and "m \<in> set ms"
  shows "\<exists>st e cs rest. m = (st, e, cs, rest) \<and> rx_run [R r] st (drop st part) [] = Some (cs, e, rest)"
proof -
  from exec_loop_matches_gen [OF assms(1)] have
    "part = drop 0 part \<longrightarrow> m \<in> set ms \<longrightarrow>
       (\<exists>st e cs rest. m = (st, e, cs, rest) \<and> rx_run [R r] st (drop st part) [] = Some (cs, e, rest))"
    by blast
  with assms(2) show ?thesis by simp
qed

text \<open>Trimming keeps every character that is not white space.\<close>

lemma dropWhile_keeps: "x \<in> set xs \<Longrightarrow> \<not> P x \<Longrightarrow> x \<in> set (dropWhile P xs)"
  by (induction xs) auto

lemma trim_keeps: "x \<in> set s \<Longrightarrow> \<not> is_space x \<Longrightarrow> x \<in> set (trim s)"
  by (simp add: trim_def dropWhile_keeps)

lemma upper_not_space: "is_upper c \<Longrightarrow> \<not> is_space c"
  by (auto simp: is_upper_def is_space_def)


text \<open>The matches of a single character class are the characters of the class, in order.\<close>

lemma rx_search_Ch:
  "rx_search (Ch P) pos s =
     (case dropWhile (\<lambda>c. \<not> P c) s of
        [] \<Rightarrow> None
      | c # rest \<Rightarrow>
          Some (pos + length (takeWhile (\<lambda>c. \<not> P c) s),
                pos + length (takeWhile (\<lambda>c. \<not> P c) s) + 1, [], rest))"
proof (induction s arbitrary: pos)
  case Nil
  show ?case by simp
next
  case (Cons a s)
  show ?case
  proof (cases "P a")
    case True
    then show ?thesis by simp
  next
    case False
    show ?thesis
    proof (cases "dropWhile (\<lambda>c. \<not> P c) s")
      case Nil
      show ?thesis by (simp add: Cons.IH Nil False)
    next
      case c: (Cons c rest)
      show ?thesis by (simp add: Cons.IH c False)
    qed
  qed
qed

lemma rx_match_from_Ch:
  "rx_match_from (Ch P) pos s = map (\<lambda>c. [c]) (filter P s)"
proof (induction "length s" arbitrary: pos s rule: less_induct)
  case less
  let ?n = "length (takeWhile (\<lambda>c. \<not> P c) s)"
  show ?case
  proof (cases "dropWhile (\<lambda>c. \<not> P c) s")
    case Nil
    then have f: "filter P s = []"
      by (simp add: filter_empty_conv)
    have r: "rx_search (Ch P) pos s = None"
      by (simp add: rx_search_Ch Nil)
    show ?thesis
      by (subst rx_match_from.simps) (simp add: r f del: rx_match_from.simps)
  next
    case (Cons c rest)
    have s: "s = takeWhile (\<lambda>c. \<not> P c) s @ c # rest"
      using Cons takeWhile_dropWhile_id [of "\<lambda>c. \<not> P c" s] by simp
    have pc: "P c"
      using Cons hd_dropWhile [of "\<lambda>c. \<not> P c" s] by simp
    have "length rest < length s"
      using arg_cong [OF s, of length] by simp
    from less [OF this] have IH: "rx_match_from (Ch P) (Suc (pos + ?n)) rest = map (\<lambda>c. [c]) (filter P rest)" .
    have "filter P (takeWhile (\<lambda>c. \<not> P c) s) = []"
      by (simp add: filter_empty_conv) (metis set_takeWhileD)
    then have f: "filter P s = c # filter P rest"
      using arg_cong [OF s, of "filter P"] pc by simp
    have d: "drop ?n s = c # rest"
      using Cons by (simp add: dropWhile_eq_drop)
    have sub: "substring s ?n (Suc ?n) = [c]"
      by (simp add: substring_def d)
    have r: "rx_search (Ch P) pos s = Some (pos + ?n, pos + ?n + 1, [], rest)"
      by (simp add: rx_search_Ch Cons)
    show ?thesis
      by (subst rx_match_from.simps) (simp add: r IH f sub del: rx_match_from.simps)
  qed
qed

lemma normalizeInitials_capitals:
  "normalizeInitials s = join (js '' '') (map (\<lambda>c. [c, 46]) (filter is_upper s))"
  by (simp add: normalizeInitials_def rx_match_all_def rx_match_from_Ch js_def comp_def
      del: rx_match_from.simps)


text \<open>Capital letters, each with a period, joined by single spaces, pass \<open>initialsPattern\<close>.\<close>

lemma rstar_unfold:
  "rx_run (R (rstar r) # k) pos s cs =
     (case rx_run (R r # Chk pos # R (rstar r) # k) pos s cs of
        Some res \<Rightarrow> Some res
      | None \<Rightarrow> rx_run k pos s cs)"
  by (subst rx_run.simps) simp

lemma initials_run:
  assumes "cs \<noteq> []" and "\<forall>c\<in>set cs. is_upper c"
  shows "rx_run [R (rstar (Grp 1 (seqs [Ch is_upper, chr CHR ''.'', ws]))),
           R (seqs [Ch is_upper, chr CHR ''.'', Eol])] pos (join [32] (map (\<lambda>c. [c, 46]) cs)) caps
         \<noteq> None"
  using assms
proof (induction cs arbitrary: pos caps rule: list_nonempty_induct)
  case (single c)
  then show ?case
    by (simp only: rstar_unfold) (simp add: chr_def split: option.splits)
next
  case (cons c cs)
  let ?G = "Grp 1 (seqs [Ch is_upper, chr CHR ''.'', ws])"
  let ?k = "[R (seqs [Ch is_upper, chr CHR ''.'', Eol])]"
  let ?rest = "join [32] (map (\<lambda>c. [c, 46]) cs)"
  from cons.hyps obtain d ds where cs: "cs = d # ds" by (cases cs) auto
  have str: "join [32] (map (\<lambda>c. [c, 46]) (c # cs)) = c # 46 # 32 # ?rest"
    by (simp add: cs)
  from cons.prems have up: "is_upper c" and ups: "\<forall>c\<in>set cs. is_upper c"
    by simp_all
  have inner: "rx_run (R ?G # Chk pos # R (rstar ?G) # ?k) pos (c # 46 # 32 # ?rest) caps
      = rx_run (R (rstar ?G) # ?k) (Suc (Suc (Suc pos))) ?rest ((1, pos, Suc (Suc (Suc pos))) # caps)"
    using up by (simp add: chr_def is_space_def del: rx_run.simps(12))
  from cons.IH [OF ups] have "rx_run (R (rstar ?G) # ?k) (Suc (Suc (Suc pos))) ?rest ((1, pos, Suc (Suc (Suc pos))) # caps) \<noteq> None" .
  with inner have "rx_run (R ?G # Chk pos # R (rstar ?G) # ?k) pos (c # 46 # 32 # ?rest) caps \<noteq> None"
    by simp
  then obtain res where
    r: "rx_run (R ?G # Chk pos # R (rstar ?G) # ?k) pos (c # 46 # 32 # ?rest) caps = Some res"
    by blast
  have "rx_run (R (rstar ?G) # ?k) pos (c # 46 # 32 # ?rest) caps = Some res"
    by (subst rstar_unfold) (simp only: r option.case)
  then show ?case
    by (simp only: str option.distinct not_False_eq_True)
qed

lemma initialsPattern_accepts:
  assumes "cs \<noteq> []" and "\<forall>c\<in>set cs. is_upper c"
  shows "rx_test initialsPattern (join (js '' '') (map (\<lambda>c. [c, 46]) cs))"
proof -
  from assms(1) obtain d ds where cs: "cs = d # ds" by (cases cs) auto
  then obtain t where t: "join [32] (map (\<lambda>c. [c, 46]) cs) = d # t"
    by (cases ds) simp_all
  from initials_run [OF assms, of 0 "[]"] obtain res where
    "rx_run [R initialsPattern] 0 (join [32] (map (\<lambda>c. [c, 46]) cs)) [] = Some res"
    by (auto simp: initialsPattern_def simp del: rx_run.simps(12))
  then show ?thesis
    by (simp add: rx_test_def rx_match_def js_def t split: prod.splits)
qed

lemma normalizeInitials_canonical:
  assumes "c \<in> set s" and "is_upper c"
  shows "rx_test initialsPattern (normalizeInitials s)"
proof -
  from assms have "filter is_upper s \<noteq> []"
    by (auto simp: filter_empty_conv)
  then show ?thesis
    by (simp only: normalizeInitials_capitals) (rule initialsPattern_accepts, simp_all)
qed


text \<open>The initials of an author the loop finds are canonical.\<close>

lemma authorOfMatch_initials:
  assumes "exec_loop authorRegex 0 part = Some ms" and "m \<in> set ms"
  shows "(\<exists>c. c \<in> set (trim (or_empty (m_group part m 2))) \<and> is_upper c)
     \<and> Author.isGroupAuthor (authorOfMatch part m) = None"
proof -
  from exec_loop_matches [OF assms] obtain st e cs rest where m: "m = (st, e, cs, rest)"
    and run: "rx_run [R authorRegex] st (drop st part) [] = Some (cs, e, rest)"
    by blast
  from authorRegex_initials [OF run] obtain p c t where p: "st \<le> p" "p < e"
    and grp: "map_of cs 2 = Some (p, e)" and d: "drop (p - st) (drop st part) = c # t"
    and up: "is_upper c"
    by blast
  from p have "p - st + st = p" by simp
  with d have d': "drop p part = c # t" by simp
  from p obtain n where n: "e - p = Suc n" by (cases "e - p") auto
  have "or_empty (m_group part m 2) = c # take n t"
    by (simp add: m grp substring_def d' n)
  then have "c \<in> set (or_empty (m_group part m 2))" by simp
  with up have "c \<in> set (trim (or_empty (m_group part m 2)))"
    by (simp add: trim_keeps upper_not_space)
  with up show ?thesis by (auto simp: authorOfMatch_def Let_def)
qed

lemma join_canonical:
  assumes "ls \<noteq> []" and "\<forall>l\<in>set ls. is_upper l"
  shows "canonicalInitials (join (js '' '') (map (\<lambda>l. [l, 46]) ls))"
  using assms
proof (induction ls rule: list_nonempty_induct)
  case (single l)
  then show ?case by simp
next
  case (cons l ls)
  from cons.hyps obtain d ds where "ls = d # ds" by (cases ls) auto
  with cons show ?case by (simp add: js_def)
qed

lemma normalizeInitials_shape:
  assumes "c \<in> set s" and "is_upper c"
  shows "canonicalInitials (normalizeInitials s)"
proof -
  from assms have "filter is_upper s \<noteq> []"
    by (auto simp: filter_empty_conv)
  then show ?thesis
    by (simp only: normalizeInitials_capitals) (rule join_canonical, simp_all)
qed

lemma authorsOfParts_initials:
  "authorsOfParts parts = Some as \<Longrightarrow> a \<in> set as \<Longrightarrow>
     Author.isGroupAuthor a = None \<and> canonicalInitials (initials a) \<and> rx_test initialsPattern (initials a)"
proof (induction parts arbitrary: as)
  case Nil
  then show ?case by simp
next
  case (Cons part parts)
  from Cons.prems(1) obtain ms as' where ms: "exec_loop authorRegex 0 part = Some ms"
    and as': "authorsOfParts parts = Some as'" and as: "as = map (authorOfMatch part) ms @ as'"
    by (auto split: option.splits)
  from Cons.prems(2) as have "a \<in> authorOfMatch part ` set ms \<or> a \<in> set as'" by auto
  then show ?case
  proof
    assume "a \<in> authorOfMatch part ` set ms"
    then obtain m where m: "m \<in> set ms" and a: "a = authorOfMatch part m" by auto
    from authorOfMatch_initials [OF ms m] obtain c where
      c: "c \<in> set (trim (or_empty (m_group part m 2)))" "is_upper c"
      and g: "Author.isGroupAuthor (authorOfMatch part m) = None"
      by blast
    have i: "initials a = normalizeInitials (trim (or_empty (m_group part m 2)))"
      by (simp add: a authorOfMatch_def Let_def)
    from normalizeInitials_shape [OF c] normalizeInitials_canonical [OF c] g i a
    show ?thesis by simp
  next
    assume "a \<in> set as'"
    with Cons.IH [OF as'] show ?thesis .
  qed
qed

lemma parseAuthors_initials:
  assumes "parseAuthors b = Some as" and "a \<in> set as"
  shows "(Author.isGroupAuthor a = Some True \<and> initials a = [])
     \<or> (Author.isGroupAuthor a = None \<and> canonicalInitials (initials a)
          \<and> rx_test initialsPattern (initials a))"
proof -
  let ?b0 = "rx_replace_all quoteChars [39] (trim b)"
  let ?block = "if str_includes ?b0 (js ''et al.'') \<or> str_includes ?b0 (js ''...'')
                then rx_replace etAlPattern [] ?b0 else ?b0"
  obtain as' where as': "authorsOfParts (rx_split ampersandSplit False ?block) = Some as'"
    using assms(1) by (auto simp: parseAuthors_def Let_def split: option.splits)
  show ?thesis
  proof (cases "a \<in> set as'")
    case True
    from authorsOfParts_initials [OF as' True] show ?thesis by simp
  next
    case False
    with assms as' have "Author.isGroupAuthor a = Some True \<and> initials a = []"
      by (auto simp: parseAuthors_def Let_def split: if_splits)
    then show ?thesis by simp
  qed
qed

text \<open>The steps after the authors leave them alone.\<close>

lemma authors_extractDoi: "authors (snd (extractDoi rc)) = authors (snd rc)"
  by (simp add: extractDoi_def split: prod.splits option.splits)

lemma authors_extractUrl: "authors (snd (extractUrl rc)) = authors (snd rc)"
  by (simp add: extractUrl_def split: prod.splits option.splits)

lemma authors_extractEdition: "authors (snd (extractEdition rc)) = authors (snd rc)"
  by (simp add: extractEdition_def split: prod.splits option.splits)

lemma authors_extractBracket: "authors (snd (extractBracket rc)) = authors (snd rc)"
  by (simp add: extractBracket_def Let_def split: prod.splits option.splits)

lemma authors_extractReportNo: "authors (snd (extractReportNo rc)) = authors (snd rc)"
  by (simp add: extractReportNo_def split: prod.splits option.splits)

lemma authors_finalFallback: "authors (finalFallback c) = authors c"
  by (simp add: finalFallback_def)

lemma authors_pattern:
  "(a, b) \<in> set SOURCE_PATTERNS \<Longrightarrow> authors (b s m c) = authors c"
  by (auto simp: SOURCE_PATTERNS_def editedChapterPattern_def chapterPublisherPattern_def
      chapterPattern_def volNoPattern_def volIssuePattern_def volPagesPattern_def
      journalIssuePattern_def journalPattern_def)

lemma authors_tryPatterns_gen:
  "tryPatterns ps s c = Some c' \<Longrightarrow> set ps \<subseteq> set SOURCE_PATTERNS \<Longrightarrow> authors c' = authors c"
  by (induction ps) (auto split: option.splits simp: authors_pattern)

lemma authors_tryPatterns:
  "tryPatterns SOURCE_PATTERNS s c = Some c' \<Longrightarrow> authors c' = authors c"
  using authors_tryPatterns_gen [of SOURCE_PATTERNS s c c'] by simp

lemma authors_bookOrDefault: "authors (bookOrDefault s c) = authors c"
proof (cases "rx_match editionPattern s")
  case None
  show ?thesis
  proof (cases "rx_match publisherOnlyPattern s")
    case n2: None
    show ?thesis
      by (cases "rx_match bookPublisherPattern s")
         (simp_all add: bookOrDefault_def None n2 authors_finalFallback Let_def)
  next
    case s2: (Some m2)
    show ?thesis
      by (cases "rx_match bookPublisherPattern s")
         (simp_all add: bookOrDefault_def None s2 authors_finalFallback Let_def)
  qed
next
  case (Some m)
  show ?thesis
    by (cases "rx_match editionFullPattern s")
       (simp_all add: bookOrDefault_def Some authors_finalFallback Let_def)
qed

lemma authors_parseSourceSegment: "authors (parseSourceSegment s c) = authors c"
proof (cases "tryPatterns SOURCE_PATTERNS s c")
  case None
  then show ?thesis
    by (simp add: parseSourceSegment_def Let_def authors_bookOrDefault)
next
  case (Some c')
  with authors_tryPatterns [OF Some] show ?thesis
    by (simp add: parseSourceSegment_def Let_def)
qed

lemma authors_parseRemainingElements: "authors (parseRemainingElements a c) = authors c"
proof -
  obtain r c1 where e: "extractReportNo (extractBracket (extractEdition (extractUrl (extractDoi
             (trim (rx_replace leadingPeriod [] a), c))))) = (r, c1)"
    by (cases "extractReportNo (extractBracket (extractEdition (extractUrl (extractDoi
             (trim (rx_replace leadingPeriod [] a), c)))))") auto
  have "authors c1 = authors c"
    using arg_cong [OF e, of "\<lambda>x. authors (snd x)"]
    by (simp add: authors_extractReportNo authors_extractBracket authors_extractEdition authors_extractUrl
        authors_extractDoi)
  then show ?thesis
    by (simp add: parseRemainingElements_def e Let_def authors_parseSourceSegment authors_finalFallback)
qed


lemma parseCitation_authors:
  assumes "parseCitation t = Some c"
  shows "authors c = [] \<or> (\<exists>b. parseAuthors b = Some (authors c))"
proof (cases "rx_match yearRegex (trim t)")
  case None
  with assms show ?thesis
    by (auto simp: parseCitation_def Let_def defaultCitation_def)
next
  case (Some m)
  let ?b = "trim (take (nat (case indexOf (trim t) (m_text (trim t) m) of
                                 Some i \<Rightarrow> int i | None \<Rightarrow> - 1)) (trim t))"
  show ?thesis
  proof (cases "parseAuthors ?b")
    case None
    with assms Some show ?thesis by (simp add: parseCitation_def Let_def)
  next
    case as: (Some as)
    with assms Some have "authors c = as"
      by (auto simp: parseCitation_def Let_def authors_parseRemainingElements)
    with as show ?thesis by blast
  qed
qed


text \<open>
  C6, as the code has it. Every author of a parsed citation is either a group author
  without initials or an individual author whose initials are in the canonical form, which
  the pattern of \<open>checkAuthorFormat\<close> accepts. \<open>normalizeInitials\<close> keeps the capital letters
  only, each with a period, joined by single spaces: "B Y" becomes "B. Y.". The citation of
  the World Health Organization parses to one group author without initials, and
  \<open>checkAuthorFormat\<close> has nothing to report on it.
\<close>

theorem author_normalization:
  "(parseCitation t = Some c \<longrightarrow> a \<in> set (authors c) \<longrightarrow>
      (Author.isGroupAuthor a = Some True \<and> initials a = [])
      \<or> (Author.isGroupAuthor a = None \<and> canonicalInitials (initials a)
           \<and> rx_test initialsPattern (initials a)))
   \<and> normalizeInitials s = join (js '' '') (map (\<lambda>l. [l, 46]) (filter is_upper s))
   \<and> normalizeInitials (js ''B Y'') = js ''B. Y.''
   \<and> map_option authors
        (parseCitation (js ''World Health Organization. (2024). Global health report. WHO Press.''))
      = Some [\<lparr>lastName = js ''World Health Organization'', initials = [],
               Author.isGroupAuthor = Some True\<rparr>]
   \<and> map_option checkAuthorFormat
        (parseCitation (js ''World Health Organization. (2024). Global health report. WHO Press.''))
      = Some []"
proof -
  have general: "parseCitation t = Some c \<longrightarrow> a \<in> set (authors c) \<longrightarrow>
      (Author.isGroupAuthor a = Some True \<and> initials a = [])
      \<or> (Author.isGroupAuthor a = None \<and> canonicalInitials (initials a)
           \<and> rx_test initialsPattern (initials a))"
  proof (intro impI)
    assume p: "parseCitation t = Some c" and a: "a \<in> set (authors c)"
    from parseCitation_authors [OF p] a obtain b where "parseAuthors b = Some (authors c)"
      by auto
    from parseAuthors_initials [OF this a] show "(Author.isGroupAuthor a = Some True \<and> initials a = [])
      \<or> (Author.isGroupAuthor a = None \<and> canonicalInitials (initials a)
           \<and> rx_test initialsPattern (initials a))" .
  qed
  have by': "normalizeInitials (js ''B Y'') = js ''B. Y.''"
    by (simp add: normalizeInitials_capitals js_def is_upper_def)
  have who: "parseCitation (js ''World Health Organization. (2024). Global health report. WHO Press.'')
      = Some ((defaultCitation (js ''World Health Organization. (2024). Global health report. WHO Press.''))
          \<lparr>authors := [\<lparr>lastName = js ''World Health Organization'', initials = [],
                        Author.isGroupAuthor = Some True\<rparr>],
           year := js ''2024'', title := js ''Global health report'', source := js ''WHO Press.'',
           type := Book, isGroupAuthor := Some True\<rparr>)"
    by (simp add: ev exec_loop.simps)
  have who_authors: "map_option authors
        (parseCitation (js ''World Health Organization. (2024). Global health report. WHO Press.''))
      = Some [\<lparr>lastName = js ''World Health Organization'', initials = [],
               Author.isGroupAuthor = Some True\<rparr>]"
    by (simp only: who) simp
  have who_check: "map_option checkAuthorFormat
        (parseCitation (js ''World Health Organization. (2024). Global health report. WHO Press.''))
      = Some []"
    by (simp only: who) (simp add: ev)
  from general normalizeInitials_capitals [of s] by' who_authors who_check show ?thesis
    by (intro conjI)
qed

text \<open>An author with the initials "B.Y." is read as an individual, with the initials "B. Y.".\<close>

lemma kim_parsed:
  "map_option authors (parseCitation (js ''Kim, B.Y. (2024). Title here. Source.''))
     = Some [\<lparr>lastName = js ''Kim'', initials = js ''B. Y.'', Author.isGroupAuthor = None\<rparr>]"
  by (simp add: ev exec_loop.simps)

theorem author_normalization_witness:
  "map_option authors (parseCitation (js ''Kim, B.Y. (2024). Title here. Source.''))
     = Some [\<lparr>lastName = js ''Kim'', initials = js ''B. Y.'', Author.isGroupAuthor = None\<rparr>]
   \<and> canonicalInitials (js ''B. Y.'') \<and> rx_test initialsPattern (js ''B. Y.'')"
proof -
  let ?kim = "\<lparr>lastName = js ''Kim'', initials = js ''B. Y.'', Author.isGroupAuthor = None\<rparr>"
  from kim_parsed obtain c where c: "parseCitation (js ''Kim, B.Y. (2024). Title here. Source.'') = Some c"
    and au: "authors c = [?kim]"
    by auto
  from au have mem: "?kim \<in> set (authors c)" by simp
  from author_normalization [of "js ''Kim, B.Y. (2024). Title here. Source.''" c ?kim] c mem
  have "canonicalInitials (js ''B. Y.'') \<and> rx_test initialsPattern (js ''B. Y.'')"
    by simp
  with kim_parsed show ?thesis by simp
qed

text \<open>
  Small letters are dropped, not raised: the initials "b.y." normalize to the empty string.
  The author blocks "Kim, b.y." and "Kim, B Y" are no match of the pattern of an individual
  author, and are read as the name of a group.
\<close>

theorem lowercase_initials_counterexample:
  "normalizeInitials (js ''b.y.'') = []
   \<and> normalizeInitials (js ''b.y.'') \<noteq> js ''B. Y.''
   \<and> map_option authors (parseCitation (js ''Kim, b.y. (2024). Title here. Source.''))
     = Some [\<lparr>lastName = js ''Kim, b.y'', initials = [], Author.isGroupAuthor = Some True\<rparr>]
   \<and> map_option authors (parseCitation (js ''Kim, B Y (2024). Title here. Source.''))
     = Some [\<lparr>lastName = js ''Kim, B Y'', initials = [], Author.isGroupAuthor = Some True\<rparr>]"
proof -
  have n: "normalizeInitials (js ''b.y.'') = []"
    by (simp add: normalizeInitials_capitals js_def is_upper_def)
  have d: "normalizeInitials (js ''b.y.'') \<noteq> js ''B. Y.''"
    using n by (simp add: js_def)
  have l: "map_option authors (parseCitation (js ''Kim, b.y. (2024). Title here. Source.''))
     = Some [\<lparr>lastName = js ''Kim, b.y'', initials = [], Author.isGroupAuthor = Some True\<rparr>]"
    by (simp add: ev exec_loop.simps)
  have u: "map_option authors (parseCitation (js ''Kim, B Y (2024). Title here. Source.''))
     = Some [\<lparr>lastName = js ''Kim, B Y'', initials = [], Author.isGroupAuthor = Some True\<rparr>]"
    by (simp add: ev exec_loop.simps)
  from n d l u show ?thesis by (intro conjI)
qed

end
